theory Spec2Isabelle
  imports Complex_Main
begin

section \<open>An N-body gravity simulator: conventions\<close>

text \<open>
  The theory embeds parts of two programs of the repository: the real-time simulator
  (\<open>gravity_sim\<close>: the embedded Runge-Kutta integrator, its Butcher tableaus, its
  initial step and its total energy) and the plotting program (\<open>gravity_plot\<close>: the
  catalogue of pre-defined systems, the energy of a stored solution and the trimming of
  a stored solution).

  Python floats are modelled as real numbers: every literal of the source stands for the
  rational it denotes, and rounding, overflow and underflow are left out. Python's
  unbounded integers are \<open>int\<close>, iteration counts and array indices are \<open>nat\<close>.
\<close>

datatype py_error = ValueError

section \<open>Butcher tableaus (\<open>rk_embedded_butcher_tableaus\<close>)\<close>

text \<open>
  The literal arrays of the four \<open>case\<close> branches, in the order of the source:
  45 (Runge-Kutta-Fehlberg 4(5)), 54 (Dormand-Prince 5(4)), 78 (Runge-Kutta-Fehlberg
  7(8)) and 65 (Verner 6(5), DVERK).
\<close>

definition rkf45_coeff :: "real list list" where
  "rkf45_coeff =
    [[1 / 4, 0, 0, 0, 0],
     [3 / 32, 9 / 32, 0, 0, 0],
     [1932 / 2197, - 7200 / 2197, 7296 / 2197, 0, 0],
     [439 / 216, - 8, 3680 / 513, - 845 / 4104, 0],
     [- 8 / 27, 2, - 3544 / 2565, 1859 / 4104, - 11 / 40]]"

definition rkf45_weights :: "real list" where
  "rkf45_weights =
    [25 / 216, 0, 1408 / 2565, 2197 / 4104, - 0.2, 0]"

definition rkf45_weights_test :: "real list" where
  "rkf45_weights_test =
    [16 / 135, 0, 6656 / 12825, 28561 / 56430, - 9 / 50, 2 / 55]"

definition dopri_coeff :: "real list list" where
  "dopri_coeff =
    [[1 / 5, 0, 0, 0, 0, 0],
     [3 / 40, 9 / 40, 0, 0, 0, 0],
     [44 / 45, - 56 / 15, 32 / 9, 0, 0, 0],
     [19372 / 6561, - 25360 / 2187, 64448 / 6561, - 212 / 729, 0, 0],
     [9017 / 3168, - 355 / 33, 46732 / 5247, 49 / 176, - 5103 / 18656, 0],
     [35 / 384, 0, 500 / 1113, 125 / 192, - 2187 / 6784, 11 / 84]]"

definition dopri_weights :: "real list" where
  "dopri_weights =
    [35 / 384, 0, 500 / 1113, 125 / 192, - 2187 / 6784, 11 / 84, 0]"

definition dopri_weights_test :: "real list" where
  "dopri_weights_test =
    [5179 / 57600, 0, 7571 / 16695, 393 / 640, - 92097 / 339200, 187 / 2100, 1 / 40]"

definition rkf78_coeff :: "real list list" where
  "rkf78_coeff =
    [[2 / 27, 0, 0, 0, 0, 0, 0, 0, 0, 0, 0, 0],
     [1 / 36, 1 / 12, 0, 0, 0, 0, 0, 0, 0, 0, 0, 0],
     [1 / 24, 0, 1 / 8, 0, 0, 0, 0, 0, 0, 0, 0, 0],
     [5 / 12, 0, - 25 / 16, 25 / 16, 0, 0, 0, 0, 0, 0, 0, 0],
     [1 / 20, 0, 0, 1 / 4, 1 / 5, 0, 0, 0, 0, 0, 0, 0],
     [- 25 / 108, 0, 0, 125 / 108, - 65 / 27, 125 / 54, 0, 0, 0, 0, 0, 0],
     [31 / 300, 0, 0, 0, 61 / 225, - 2 / 9, 13 / 900, 0, 0, 0, 0, 0],
     [2, 0, 0, - 53 / 6, 704 / 45, - 107 / 9, 67 / 90, 3, 0, 0, 0, 0],
     [- 91 / 108, 0, 0, 23 / 108, - 976 / 135, 311 / 54, - 19 / 60, 17 / 6, - 1 / 12, 0, 0, 0],
     [2383 / 4100, 0, 0, - 341 / 164, 4496 / 1025, - 301 / 82, 2133 / 4100, 45 / 82,
      45 / 164, 18 / 41, 0, 0],
     [3 / 205, 0, 0, 0, 0, - 6 / 41, - 3 / 205, - 3 / 41, 3 / 41, 6 / 41, 0, 0],
     [- 1777 / 4100, 0, 0, - 341 / 164, 4496 / 1025, - 289 / 82, 2193 / 4100, 51 / 82,
      33 / 164, 19 / 41, 0, 1]]"

definition rkf78_weights :: "real list" where
  "rkf78_weights =
    [41 / 840, 0, 0, 0, 0, 34 / 105, 9 / 35, 9 / 35, 9 / 280, 9 / 280, 41 / 840, 0, 0]"

definition rkf78_weights_test :: "real list" where
  "rkf78_weights_test =
    [0, 0, 0, 0, 0, 34 / 105, 9 / 35, 9 / 35, 9 / 280, 9 / 280, 0, 41 / 840, 41 / 840]"

definition dverk_coeff :: "real list list" where
  "dverk_coeff =
    [[1 / 6, 0, 0, 0, 0, 0, 0],
     [4 / 75, 16 / 75, 0, 0, 0, 0, 0],
     [5 / 6, - 8 / 3, 5 / 2, 0, 0, 0, 0],
     [- 165 / 64, 55 / 6, - 425 / 64, 85 / 96, 0, 0, 0],
     [12 / 5, - 8, 4015 / 612, - 11 / 36, 88 / 255, 0, 0],
     [- 8263 / 15000, 124 / 75, - 643 / 680, - 81 / 250, 2484 / 10625, 0, 0],
     [3501 / 1720, - 300 / 43, 297275 / 52632, - 319 / 2322, 24068 / 84065, 0, 3850 / 26703]]"

definition dverk_weights :: "real list" where
  "dverk_weights =
    [3 / 40, 0, 875 / 2244, 23 / 72, 264 / 1955, 0, 125 / 11592, 43 / 616]"

definition dverk_weights_test :: "real list" where
  "dverk_weights_test =
    [13 / 160, 0, 2375 / 5984, 5 / 16, 12 / 85, 3 / 44, 0, 0]"

type_synonym tableau = "int \<times> int \<times> real list list \<times> real list \<times> real list"

text \<open>
  The function itself: a \<open>match\<close> on \<open>order\<close> that binds \<open>power\<close>, \<open>power_test\<close>,
  \<open>coeff\<close>, \<open>weights\<close> and \<open>weights_test\<close>; the default case raises \<open>ValueError\<close>.
\<close>

definition rk_embedded_butcher_tableaus :: "int \<Rightarrow> py_error + tableau" where
  "rk_embedded_butcher_tableaus order =
     (if order = 45 then Inr (4, 5, rkf45_coeff, rkf45_weights, rkf45_weights_test)
      else if order = 54 then Inr (5, 4, dopri_coeff, dopri_weights, dopri_weights_test)
      else if order = 78 then Inr (7, 8, rkf78_coeff, rkf78_weights, rkf78_weights_test)
      else if order = 65 then Inr (6, 7, dverk_coeff, dverk_weights, dverk_weights_test)
      else Inl ValueError)"

text \<open>
  The node values of each tableau. The source keeps them as the commented-out
  \<open>nodes\<close> array at the head of each branch; they are copied from those comments.
\<close>

definition rkf45_nodes :: "real list" where
  "rkf45_nodes = [1 / 4, 3 / 8, 12 / 13, 1, 0.5]"

definition dopri_nodes :: "real list" where
  "dopri_nodes = [1 / 5, 3 / 10, 4 / 5, 8 / 9, 1, 1]"

definition rkf78_nodes :: "real list" where
  "rkf78_nodes =
    [2 / 27, 1 / 9, 1 / 6, 5 / 12, 1 / 2, 5 / 6, 1 / 6, 2 / 3, 1 / 3, 1, 0, 1]"

definition dverk_nodes :: "real list" where
  "dverk_nodes = [1 / 6, 4 / 15, 2 / 3, 5 / 6, 1, 1 / 15, 1]"

definition nodes_of :: "int \<Rightarrow> real list" where
  "nodes_of order =
     (if order = 45 then rkf45_nodes else if order = 54 then dopri_nodes
      else if order = 78 then rkf78_nodes else if order = 65 then dverk_nodes else [])"

section \<open>System catalogue of the plotting program (class \<open>Simulator\<close>)\<close>

subsection \<open>Vectors and arrays\<close>

text \<open>
  A numpy array of shape (N, 3) is a list of N rows; a row, like every 3-vector of the
  source, is a triple. The operations are numpy's element-wise ones.
\<close>

type_synonym vec3 = "real \<times> real \<times> real"

fun vadd :: "vec3 \<Rightarrow> vec3 \<Rightarrow> vec3" where
  "vadd (a1, a2, a3) (b1, b2, b3) = (a1 + b1, a2 + b2, a3 + b3)"

fun vsub :: "vec3 \<Rightarrow> vec3 \<Rightarrow> vec3" where
  "vsub (a1, a2, a3) (b1, b2, b3) = (a1 - b1, a2 - b2, a3 - b3)"

fun vscale :: "real \<Rightarrow> vec3 \<Rightarrow> vec3" where
  "vscale c (a1, a2, a3) = (c * a1, c * a2, c * a3)"

definition vzero :: vec3 where
  "vzero = (0, 0, 0)"

text \<open>\<open>np.linalg.norm\<close> of a 3-vector.\<close>

fun vnorm :: "vec3 \<Rightarrow> real" where
  "vnorm (a1, a2, a3) = sqrt (a1 * a1 + a2 * a2 + a3 * a3)"

subsection \<open>Class constants\<close>

datatype body =
  Sun | Mercury | Venus | Earth | Mars | Jupiter | Saturn | Uranus | Neptune
  | Moon | Pluto | Ceres | Vesta

text \<open>The dictionaries of the class are keyed by the thirteen body names.\<close>

definition CONVERSION_FACTOR :: real where
  "CONVERSION_FACTOR = (86400 ^ 2) / (149597870.7 ^ 3)"

fun GM_SI :: "body \<Rightarrow> real" where
  "GM_SI Sun = 132712440041.279419"
| "GM_SI Mercury = 22031.868551"
| "GM_SI Venus = 324858.592000"
| "GM_SI Earth = 398600.435507"
| "GM_SI Mars = 42828.375816"
| "GM_SI Jupiter = 126712764.100000"
| "GM_SI Saturn = 37940584.841800"
| "GM_SI Uranus = 5794556.400000"
| "GM_SI Neptune = 6836527.100580"
| "GM_SI Moon = 4902.800118"
| "GM_SI Pluto = 975.500000"
| "GM_SI Ceres = 62.62890"
| "GM_SI Vesta = 17.288245"

fun GM :: "body \<Rightarrow> real" where
  "GM Sun = 132712440041.279419 * CONVERSION_FACTOR"
| "GM Mercury = 22031.868551 * CONVERSION_FACTOR"
| "GM Venus = 324858.592000 * CONVERSION_FACTOR"
| "GM Earth = 398600.435507 * CONVERSION_FACTOR"
| "GM Mars = 42828.375816 * CONVERSION_FACTOR"
| "GM Jupiter = 126712764.100000 * CONVERSION_FACTOR"
| "GM Saturn = 37940584.841800 * CONVERSION_FACTOR"
| "GM Uranus = 5794556.400000 * CONVERSION_FACTOR"
| "GM Neptune = 6836527.100580 * CONVERSION_FACTOR"
| "GM Moon = 4902.800118 * CONVERSION_FACTOR"
| "GM Pluto = 975.500000 * CONVERSION_FACTOR"
| "GM Ceres = 62.62890 * CONVERSION_FACTOR"
| "GM Vesta = 17.288245 * CONVERSION_FACTOR"

fun SOLAR_SYSTEM_POS :: "body \<Rightarrow> vec3" where
  "SOLAR_SYSTEM_POS Sun =
     (- 0.007967955691533730, - 0.002906227441573178, 0.0002103054301547123)"
| "SOLAR_SYSTEM_POS Mercury =
     (- 0.2825983269538632, 0.1974559795958082, 0.04177433558063677)"
| "SOLAR_SYSTEM_POS Venus =
     (- 0.7232103701666379, - 0.07948302026312400, 0.04042871428174315)"
| "SOLAR_SYSTEM_POS Earth =
     (- 0.1738192017257054, 0.9663245550235138, 0.0001553901854897183)"
| "SOLAR_SYSTEM_POS Mars =
     (- 0.3013262392582653, - 1.454029331393295, - 0.02300531433991428)"
| "SOLAR_SYSTEM_POS Jupiter =
     (3.485202469657674, 3.552136904413157, - 0.09271035442798399)"
| "SOLAR_SYSTEM_POS Saturn =
     (8.988104223143450, - 3.719064854634689, - 0.2931937777323593)"
| "SOLAR_SYSTEM_POS Uranus =
     (12.26302417897505, 15.29738792480545, - 0.1020549026883563)"
| "SOLAR_SYSTEM_POS Neptune =
     (29.83501460984741, - 1.793812957956852, - 0.6506401132254588)"
| "SOLAR_SYSTEM_POS Moon =
     (- 0.1762788124769829, 0.9674377513177153, 0.0003236901585768862)"
| "SOLAR_SYSTEM_POS Pluto =
     (17.20200478843485, - 30.34155683573043, - 1.729127607100611)"
| "SOLAR_SYSTEM_POS Ceres =
     (- 1.103880510367569, - 2.533340440444230, 0.1220283937721780)"
| "SOLAR_SYSTEM_POS Vesta =
     (- 0.08092549658731499, 2.558381434460076, - 0.06695836142398572)"

fun SOLAR_SYSTEM_VEL :: "body \<Rightarrow> vec3" where
  "SOLAR_SYSTEM_VEL Sun =
     (0.000004875094764261564, - 0.000007057133213976680, - 0.00000004573453713094512)"
| "SOLAR_SYSTEM_VEL Mercury =
     (- 0.02232165900189702, - 0.02157207103176252, 0.0002855193410495743)"
| "SOLAR_SYSTEM_VEL Venus =
     (0.002034068201002341, - 0.02020828626592994, - 0.0003945639843855159)"
| "SOLAR_SYSTEM_VEL Earth =
     (- 0.01723001232538228, - 0.002967721342618870, 0.0000006382125383116755)"
| "SOLAR_SYSTEM_VEL Mars =
     (0.01424832259345280, - 0.001579236181580905, - 0.0003823722796161561)"
| "SOLAR_SYSTEM_VEL Jupiter =
     (- 0.005470970658852281, 0.005642487338479145, 0.00009896190602066252)"
| "SOLAR_SYSTEM_VEL Saturn =
     (0.001822013845554067, 0.005143470425888054, - 0.0001617235904887937)"
| "SOLAR_SYSTEM_VEL Uranus =
     (- 0.003097615358317413, 0.002276781932345769, 0.00004860433222241686)"
| "SOLAR_SYSTEM_VEL Neptune =
     (0.0001676536611817232, 0.003152098732861913, - 0.00006877501095688201)"
| "SOLAR_SYSTEM_VEL Moon =
     (- 0.01746667306153906, - 0.003473438277358121, - 0.00003359028758606074)"
| "SOLAR_SYSTEM_VEL Pluto =
     (0.002802810313667557, 0.0008492056438614633, - 0.0009060790113327894)"
| "SOLAR_SYSTEM_VEL Ceres =
     (0.008978653480111301, - 0.004873256528198994, - 0.001807162046049230)"
| "SOLAR_SYSTEM_VEL Vesta =
     (- 0.01017876585480054, - 0.0005452367109338154, 0.001255870551153315)"


fun SOLAR_SYSTEM_MASSES :: "body \<Rightarrow> real" where
  "SOLAR_SYSTEM_MASSES Sun = 1"
| "SOLAR_SYSTEM_MASSES b = GM_SI b / GM_SI Sun"

definition CONSTANT_G :: real where
  "CONSTANT_G = GM Sun"

text \<open>
  The gravitational constant of the real-time program (\<open>Grav_obj.G\<close> in
  \<open>gravity_sim/grav_obj.py\<close>), and the value quoted in the note that
  \<open>_get_user_simulation_input\<close> prints (\<open>G=0.00029591220828411.\<close>).
\<close>

definition Grav_obj_G :: real where
  "Grav_obj_G = 0.00029591220828559"

definition printed_note_G :: real where
  "printed_note_G = 0.00029591220828411"

subsection \<open>\<open>initialize_system_numpy\<close>: the pre-defined systems\<close>

record sim =
  sim_x :: "vec3 list"
  sim_v :: "vec3 list"
  sim_m :: "real list"
  sim_objects_count :: nat

text \<open>The fields as \<open>__init__\<close> leaves them.\<close>

definition sim_init :: sim where
  "sim_init = \<lparr>sim_x = [], sim_v = [], sim_m = [], sim_objects_count = 0\<rparr>"

text \<open>
  The sum \<open>m[0] * p0 + m[1] * p1 + ...\<close> that the three solar-system branches write out
  term by term, added from the left as Python does.
\<close>

definition weighted_terms_sum :: "real list \<Rightarrow> vec3 list \<Rightarrow> vec3" where
  "weighted_terms_sum ms ps =
     (case map2 vscale ms ps of [] \<Rightarrow> vzero | t # ts \<Rightarrow> foldl vadd t ts)"

text \<open>
  The branches \<open>sun_earth_moon\<close>, \<open>solar_system\<close> and \<open>solar_system_plus\<close> have the
  same body and differ in the bodies they list: masses from \<open>SOLAR_SYSTEM_MASSES\<close>, the
  centre of mass \<open>R_CM\<close> and its velocity \<open>V_CM\<close>, then every position and velocity
  minus \<open>R_CM\<close> and \<open>V_CM\<close>.
\<close>

definition barycentric_system :: "body list \<Rightarrow> sim" where
  "barycentric_system bodies =
     (let m = map SOLAR_SYSTEM_MASSES bodies;
          R_CM = vscale (1 / sum_list m) (weighted_terms_sum m (map SOLAR_SYSTEM_POS bodies));
          V_CM = vscale (1 / sum_list m) (weighted_terms_sum m (map SOLAR_SYSTEM_VEL bodies))
      in \<lparr>sim_x = map (\<lambda>b. vsub (SOLAR_SYSTEM_POS b) R_CM) bodies,
          sim_v = map (\<lambda>b. vsub (SOLAR_SYSTEM_VEL b) V_CM) bodies,
          sim_m = m,
          sim_objects_count = length bodies\<rparr>)"

text \<open>
  The \<open>match\<close> on the system name, with \<open>self.G = CONSTANT_G\<close>. A name of
  \<open>default_systems\<close> without a case (\<open>custom\<close>) leaves the fields as they are; a name
  outside \<open>default_systems\<close> is read from the CSV catalogue, which is not modelled.
\<close>

definition initialize_system_numpy :: "string \<Rightarrow> sim" where
  "initialize_system_numpy system =
     (let G = CONSTANT_G in
      if system = ''circular_binary_orbit'' then
        \<lparr>sim_x = [(1, 0, 0), (- 1, 0, 0)],
         sim_v = [(0, 0.5, 0), (0, - 0.5, 0)],
         sim_m = [1 / G, 1 / G],
         sim_objects_count = 2\<rparr>
      else if system = ''eccentric_binary_orbit'' then
        \<lparr>sim_x = [(1, 0, 0), (- 1.25, 0, 0)],
         sim_v = [(0, 0.5, 0), (0, - 0.625, 0)],
         sim_m = [1 / G, 0.8 / G],
         sim_objects_count = 2\<rparr>
      else if system = ''3d_helix'' then
        (let v0 = sqrt (1 / sqrt 3) in
         \<lparr>sim_x = [(0, 0, - 1), (- sqrt 3 / 2, 0, 0.5), (sqrt 3 / 2, 0, 0.5)],
          sim_v = [(- v0, 0.5, 0), (0.5 * v0, 0.5, (sqrt 3 / 2) * v0),
                   (0.5 * v0, 0.5, - (sqrt 3 / 2) * v0)],
          sim_m = [1 / G, 1 / G, 1 / G],
          sim_objects_count = 3\<rparr>)
      else if system = ''sun_earth_moon'' then
        barycentric_system [Sun, Earth, Moon]
      else if system = ''figure-8'' then
        \<lparr>sim_x = [(0.970043, - 0.24308753, 0), (- 0.970043, 0.24308753, 0), (0, 0, 0)],
         sim_v = [(0.466203685, 0.43236573, 0), (0.466203685, 0.43236573, 0),
                  (- 0.93240737, - 0.86473146, 0)],
         sim_m = [1 / G, 1 / G, 1 / G],
         sim_objects_count = 3\<rparr>
      else if system = ''pyth-3-body'' then
        \<lparr>sim_x = [(1, 3, 0), (- 2, - 1, 0), (1, - 1, 0)],
         sim_v = [(0, 0, 0), (0, 0, 0), (0, 0, 0)],
         sim_m = [3 / G, 4 / G, 5 / G],
         sim_objects_count = 3\<rparr>
      else if system = ''solar_system'' then
        barycentric_system
          [Sun, Mercury, Venus, Earth, Mars, Jupiter, Saturn, Uranus, Neptune]
      else if system = ''solar_system_plus'' then
        barycentric_system
          [Sun, Mercury, Venus, Earth, Mars, Jupiter, Saturn, Uranus, Neptune,
           Pluto, Ceres, Vesta]
      else sim_init)"

text \<open>
  The mass-weighted sum \<open>\<Sum> m\<^sub>i * p\<^sub>i\<close> over the bodies of a system (total mass times
  barycentre for positions, total momentum for velocities).
\<close>

definition moment :: "real list \<Rightarrow> vec3 list \<Rightarrow> vec3" where
  "moment ms ps = foldr vadd (map2 vscale ms ps) vzero"

section \<open>Total energy\<close>

text \<open>
  The energy routines are the one place where the special values of IEEE arithmetic
  decide the result, so a float here is a finite real, an infinity or NaN. Only the
  operations the two routines apply to a possibly special value are given; rounding and
  overflow of finite values are left out.
\<close>

datatype float64 = Finite real | PosInf | NegInf | NaN

fun fneg :: "float64 \<Rightarrow> float64" where
  "fneg (Finite a) = Finite (- a)"
| "fneg PosInf = NegInf"
| "fneg NegInf = PosInf"
| "fneg NaN = NaN"

fun fadd :: "float64 \<Rightarrow> float64 \<Rightarrow> float64" where
  "fadd NaN _ = NaN"
| "fadd _ NaN = NaN"
| "fadd PosInf NegInf = NaN"
| "fadd NegInf PosInf = NaN"
| "fadd PosInf _ = PosInf"
| "fadd _ PosInf = PosInf"
| "fadd NegInf _ = NegInf"
| "fadd _ NegInf = NegInf"
| "fadd (Finite a) (Finite b) = Finite (a + b)"

definition fsub :: "float64 \<Rightarrow> float64 \<Rightarrow> float64" where
  "fsub a b = fadd a (fneg b)"

text \<open>
  Division of two finite numpy scalars, the divisor being a norm (so a zero divisor is
  +0.0): numpy warns and returns an infinity of the sign of the dividend, or NaN for 0/0.
\<close>

definition fdiv :: "real \<Rightarrow> real \<Rightarrow> float64" where
  "fdiv a b =
     (if b \<noteq> 0 then Finite (a / b)
      else if a = 0 then NaN else if 0 < a then PosInf else NegInf)"

subsection \<open>\<open>total_energy\<close> of the real-time program\<close>

text \<open>
  The inner loop \<open>for k in range(objects_count)\<close> for a fixed \<open>j\<close>; \<open>None\<close> is the early
  \<open>return np.nan\<close>.
\<close>

fun total_energy_pairs ::
  "real \<Rightarrow> vec3 list \<Rightarrow> real list \<Rightarrow> nat \<Rightarrow> nat list \<Rightarrow> real \<Rightarrow> real option" where
  "total_energy_pairs G x m j [] E = Some E"
| "total_energy_pairs G x m j (k # ks) E =
     (if j < k then
        (let R = vsub (x ! j) (x ! k); norm = vnorm R in
         if norm \<noteq> 0 then total_energy_pairs G x m j ks (E - G * m ! j * m ! k / norm)
         else None)
      else total_energy_pairs G x m j ks E)"

text \<open>The outer loop \<open>for j in range(0, objects_count)\<close>.\<close>

fun total_energy_bodies ::
  "nat \<Rightarrow> real \<Rightarrow> vec3 list \<Rightarrow> vec3 list \<Rightarrow> real list \<Rightarrow> nat list \<Rightarrow> real \<Rightarrow> real option" where
  "total_energy_bodies N G x v m [] E = Some E"
| "total_energy_bodies N G x v m (j # js) E =
     (case total_energy_pairs G x m j [0..<N] (E + 0.5 * m ! j * (vnorm (v ! j)) ^ 2) of
        None \<Rightarrow> None
      | Some E' \<Rightarrow> total_energy_bodies N G x v m js E')"

definition total_energy ::
  "nat \<Rightarrow> vec3 list \<Rightarrow> vec3 list \<Rightarrow> real list \<Rightarrow> real \<Rightarrow> float64" where
  "total_energy N x v m G =
     (case total_energy_bodies N G x v m [0..<N] 0 of None \<Rightarrow> NaN | Some E \<Rightarrow> Finite E)"

subsection \<open>\<open>Simulator.compute_energy\<close> of the plotting program (numpy branch)\<close>

text \<open>
  A sample of \<open>sol_state\<close> is the flat state of length 6N, positions then velocities;
  \<open>x[i * 3 : (i + 1) * 3]\<close> is the i-th 3-vector of it.
\<close>

definition slice3 :: "real list \<Rightarrow> nat \<Rightarrow> vec3" where
  "slice3 x i = (x ! (i * 3), x ! (i * 3 + 1), x ! (i * 3 + 2))"

text \<open>
  The statement \<open>self.energy[count] -= G * m[i] * m[j] / norm(...)\<close>: there is no test
  of the norm, the quotient is formed whatever it is.
\<close>

definition potential_step ::
  "real \<Rightarrow> real list \<Rightarrow> real list \<Rightarrow> nat \<Rightarrow> float64 \<Rightarrow> nat \<Rightarrow> float64" where
  "potential_step G m x i e j =
     fsub e (fdiv (G * m ! i * m ! j) (vnorm (vsub (slice3 x i) (slice3 x j))))"

text \<open>
  The body of \<open>for i in range(self.objects_count)\<close>: the kinetic term, then the loop
  \<open>for j in range(i + 1, self.objects_count)\<close>.
\<close>

definition energy_of_body ::
  "nat \<Rightarrow> real \<Rightarrow> real list \<Rightarrow> real list \<Rightarrow> float64 \<Rightarrow> nat \<Rightarrow> float64" where
  "energy_of_body N G m x e i =
     foldl (potential_step G m x i)
       (fadd e (Finite (0.5 * m ! i * (vnorm (slice3 x (N + i))) ^ 2)))
       [i + 1..<N]"

text \<open>
  \<open>self.energy = np.zeros(npts)\<close>, then one entry per sample: the energy array has
  the length of \<open>sol_state\<close> whatever the values are.
\<close>

definition compute_energy ::
  "nat \<Rightarrow> real \<Rightarrow> real list \<Rightarrow> real list list \<Rightarrow> float64 list" where
  "compute_energy N G m sol_state =
     map (\<lambda>x. foldl (energy_of_body N G m x) (Finite 0) [0..<N]) sol_state"

section \<open>Trimming the stored solution (\<open>trim_data\<close>)\<close>

text \<open>
  The solution arrays of the simulator, parallel in their index. \<open>energy\<close> is read and
  written only when \<open>computed_energy\<close> is set.
\<close>

record solution =
  sol_time :: "real list"
  sol_dt :: "real list"
  sol_state :: "real list list"
  energy :: "real list"

text \<open>
  The body of \<open>for i in range(self.data_size)\<close>, on the loop state \<open>(j, trimmed)\<close>. The
  model writes with HOL's list update, which ignores an index out of range where numpy
  raises; \<open>trim_loop_index_in_range\<close> below shows that every index written is in range.
\<close>

definition trim_step ::
  "nat \<Rightarrow> bool \<Rightarrow> solution \<Rightarrow> nat \<times> solution \<Rightarrow> nat \<Rightarrow> nat \<times> solution" where
  "trim_step divide_factor computed_energy sim st i =
     (case st of (j, trimmed) \<Rightarrow>
        if i mod divide_factor = 0 then
          (j + 1,
           trimmed\<lparr>sol_time := (sol_time trimmed)[j := sol_time sim ! i],
                   sol_dt := (sol_dt trimmed)[j := sol_dt sim ! i],
                   sol_state := (sol_state trimmed)[j := sol_state sim ! i],
                   energy := (if computed_energy then (energy trimmed)[j := energy sim ! i]
                              else energy trimmed)\<rparr>)
        else (j, trimmed))"

text \<open>
  The two sizes computed when the user has entered the desired size, with Python's float
  division, \<open>math.ceil\<close> and \<open>math.floor\<close>.
\<close>

definition divide_factor :: "nat \<Rightarrow> nat \<Rightarrow> nat" where
  "divide_factor data_size desired_trim_size =
     nat \<lceil>real data_size / real desired_trim_size\<rceil>"

definition trim_size :: "nat \<Rightarrow> nat \<Rightarrow> nat" where
  "trim_size data_size desired_trim_size =
     nat \<lfloor>real data_size / real (divide_factor data_size desired_trim_size)\<rfloor> + 1"

text \<open>
  The trimming part of \<open>trim_data\<close>, entered with \<open>is_trim_data\<close> set, that is after
  \<open>get_int\<close> has returned a \<open>desired_trim_size\<close> larger than 1 and smaller than
  \<open>data_size\<close>. The index \<open>-1\<close> of the source is the last index of each array.
\<close>

definition trim_data :: "nat \<Rightarrow> nat \<Rightarrow> nat \<Rightarrow> bool \<Rightarrow> solution \<Rightarrow> solution" where
  "trim_data data_size desired_trim_size objects_count computed_energy sim =
     (let divide_factor = divide_factor data_size desired_trim_size;
          trim_size = trim_size data_size desired_trim_size;
          zeros = \<lparr>sol_time = replicate trim_size 0,
                   sol_dt = replicate trim_size 0,
                   sol_state = replicate trim_size (replicate (objects_count * 3 * 2) 0),
                   energy = (if computed_energy then replicate trim_size 0 else [])\<rparr>;
          trimmed = snd (foldl (trim_step divide_factor computed_energy sim) (0, zeros)
                           [0..<data_size])
      in if sol_time trimmed ! (trim_size - 1) \<noteq> sol_time sim ! (data_size - 1) then
           trimmed\<lparr>sol_time := (sol_time trimmed)[trim_size - 1 := sol_time sim ! (data_size - 1)],
                   sol_dt := (sol_dt trimmed)[trim_size - 1 := sol_dt sim ! (data_size - 1)],
                   sol_state :=
                     (sol_state trimmed)[trim_size - 1 := sol_state sim ! (data_size - 1)],
                   energy := (if computed_energy
                              then (energy trimmed)[trim_size - 1 := energy sim ! (data_size - 1)]
                              else energy trimmed)\<rparr>
         else trimmed)"

text \<open>
  The sample stored at index \<open>k\<close>: its time, step, state and, when computed, energy.
\<close>

definition entry :: "solution \<Rightarrow> bool \<Rightarrow> nat \<Rightarrow> real \<times> real \<times> real list \<times> real option" where
  "entry sim computed_energy k =
     (sol_time sim ! k, sol_dt sim ! k, sol_state sim ! k,
      if computed_energy then Some (energy sim ! k) else None)"

text \<open>The entry of a freshly allocated (\<open>np.zeros\<close>) trimmed buffer.\<close>

definition zero_entry :: "nat \<Rightarrow> bool \<Rightarrow> real \<times> real \<times> real list \<times> real option" where
  "zero_entry objects_count computed_energy =
     (0, 0, replicate (objects_count * 3 * 2) 0, if computed_energy then Some 0 else None)"

text \<open>
  One column of the loop, for the proofs: the loop copies each of the arrays in the
  same way, at the same indices.
\<close>

definition copy_column :: "nat \<Rightarrow> 'a list \<Rightarrow> nat \<times> 'a list \<Rightarrow> nat \<Rightarrow> nat \<times> 'a list" where
  "copy_column d src st i =
     (case st of (j, dst) \<Rightarrow> if i mod d = 0 then (j + 1, dst[j := src ! i]) else (j, dst))"

text \<open>
  A stored solution of five samples of one body whose last two samples carry the same
  time and different states, as a result file read back from disk may hold.
\<close>

definition repeated_time_solution :: solution where
  "repeated_time_solution =
     \<lparr>sol_time = [0, 1, 2, 3, 3],
      sol_dt = [1, 1, 1, 1, 1],
      sol_state = [replicate 6 0, replicate 6 1, replicate 6 2, replicate 6 3, replicate 6 4],
      energy = []\<rparr>"

text \<open>A stored solution of five samples of one body at the times 0, 1, 2, 3, 4.\<close>

definition five_sample_solution :: solution where
  "five_sample_solution =
     \<lparr>sol_time = [0, 1, 2, 3, 4],
      sol_dt = [1, 1, 1, 1, 1],
      sol_state = [replicate 6 0, replicate 6 1, replicate 6 2, replicate 6 3, replicate 6 4],
      energy = []\<rparr>"

section \<open>The embedded Runge-Kutta integrator (\<open>rk_embedded\<close>)\<close>

subsection \<open>Arrays and memory\<close>

text \<open>
  In the integrator a numpy array is its flat data, row by row: every operation the
  integrator applies is element-wise, and only \<open>acceleration\<close> reads the shape. The
  functions below are numpy's \<open>+\<close>, \<open>-\<close>, \<open>/\<close>, scalar \<open>*\<close>, scalar \<open>+\<close>, \<open>np.abs\<close>,
  \<open>np.maximum\<close>, \<open>np.square\<close>, \<open>np.sum\<close> and \<open>np.zeros\<close> on arrays of equal shape.
\<close>

type_synonym ndarray = "real list"

definition arr_add :: "ndarray \<Rightarrow> ndarray \<Rightarrow> ndarray" where
  "arr_add a b = map2 (+) a b"

definition arr_sub :: "ndarray \<Rightarrow> ndarray \<Rightarrow> ndarray" where
  "arr_sub a b = map2 (-) a b"

definition arr_div :: "ndarray \<Rightarrow> ndarray \<Rightarrow> ndarray" where
  "arr_div a b = map2 (/) a b"

definition arr_maximum :: "ndarray \<Rightarrow> ndarray \<Rightarrow> ndarray" where
  "arr_maximum a b = map2 max a b"

definition arr_scale :: "real \<Rightarrow> ndarray \<Rightarrow> ndarray" where
  "arr_scale c a = map ((*) c) a"

definition arr_shift :: "real \<Rightarrow> ndarray \<Rightarrow> ndarray" where
  "arr_shift c a = map ((+) c) a"

definition arr_abs :: "ndarray \<Rightarrow> ndarray" where
  "arr_abs a = map abs a"

definition arr_square :: "ndarray \<Rightarrow> ndarray" where
  "arr_square a = map (\<lambda>u. u * u) a"

definition arr_sum :: "ndarray \<Rightarrow> real" where
  "arr_sum a = sum_list a"

definition zeros :: "nat \<Rightarrow> ndarray" where
  "zeros n = replicate n 0"

text \<open>
  \<open>rk_embedded\<close> rebinds names and updates arrays in place, so its arrays live in a
  memory: a cell per array object, and a counter of the addresses handed out. A local
  variable that holds an array holds its address. The temporaries of an expression are
  values; an array that the source binds to a name, or writes into, is a cell.
\<close>

record memory =
  cells :: "nat \<Rightarrow> ndarray"
  next_addr :: nat

text \<open>A new array object (\<open>np.zeros(...)\<close>, or the result of an expression bound to a name).\<close>

definition new_array :: "ndarray \<Rightarrow> memory \<Rightarrow> nat \<times> memory" where
  "new_array contents mem =
     (next_addr mem,
      mem\<lparr>cells := (cells mem)(next_addr mem := contents), next_addr := Suc (next_addr mem)\<rparr>)"

text \<open>An update in place of the whole array at address \<open>a\<close> (\<open>a += ...\<close>, \<open>a *= ...\<close>).\<close>

definition update_array :: "nat \<Rightarrow> ndarray \<Rightarrow> memory \<Rightarrow> memory" where
  "update_array a contents mem = mem\<lparr>cells := (cells mem)(a := contents)\<rparr>"

text \<open>
  The stage arrays \<open>vk\<close> and \<open>xk\<close> have shape (stages, N, 3): \<open>vk[j]\<close> is the j-th block
  of \<open>width = N * 3\<close> entries, and \<open>vk[j] = ...\<close> overwrites that block in place.
\<close>

definition stage_block :: "ndarray \<Rightarrow> nat \<Rightarrow> nat \<Rightarrow> ndarray" where
  "stage_block buf width j = take width (drop (j * width) buf)"

definition update_stage :: "nat \<Rightarrow> nat \<Rightarrow> nat \<Rightarrow> ndarray \<Rightarrow> memory \<Rightarrow> memory" where
  "update_stage a width j contents mem =
     update_array a
       (take (j * width) (cells mem a) @ contents @ drop (Suc j * width) (cells mem a))
       mem"

subsection \<open>Step-size control\<close>

text \<open>
  Python's \<open>**\<close> on a positive float base is \<open>powr\<close>. The literals \<open>1e-12\<close> and
  \<open>1e-5\<close> are written \<open>1 / 10 ^ 12\<close> and \<open>1 / 10 ^ 5\<close>.
\<close>

definition safety_fac_max :: real where
  "safety_fac_max = 6.0"

definition safety_fac_min :: real where
  "safety_fac_min = 0.33"

definition safety_fac :: "int \<Rightarrow> real" where
  "safety_fac min_power = 0.38 powr (1 / (1 + real_of_int min_power))"

text \<open>The proposal \<open>dt_new\<close> (the \<open>if error == 0.0\<close> statement).\<close>

definition proposed_dt :: "real \<Rightarrow> real \<Rightarrow> int \<Rightarrow> real" where
  "proposed_dt error actual_dt min_power =
     (if error = 0 then actual_dt
      else actual_dt * safety_fac min_power / error powr (1 / (1 + real_of_int min_power)))"

text \<open>The \<open>if\<close>/\<open>elif\<close>/\<open>else\<close> that bounds the step relative to the last one.\<close>

definition bounded_dt :: "real \<Rightarrow> real \<Rightarrow> real" where
  "bounded_dt dt_new actual_dt =
     (if dt_new > safety_fac_max * actual_dt then safety_fac_max * actual_dt
      else if dt_new < safety_fac_min * actual_dt then safety_fac_min * actual_dt
      else dt_new)"

text \<open>
  The step for the next attempt: the bounded step, then the statement
  \<open>if dt_new / expected_time_scale < 1e-12: actual_dt = expected_time_scale * 1e-12\<close>.
\<close>

definition next_actual_dt :: "real \<Rightarrow> real \<Rightarrow> int \<Rightarrow> real \<Rightarrow> real" where
  "next_actual_dt error actual_dt min_power expected_time_scale =
     (let dt_new = proposed_dt error actual_dt min_power;
          actual_dt = bounded_dt dt_new actual_dt
      in if dt_new / expected_time_scale < 1 / 10 ^ 12 then expected_time_scale * (1 / 10 ^ 12)
         else actual_dt)"

subsection \<open>One attempt\<close>

text \<open>
  \<open>acceleration\<close> is imported from the module \<open>common\<close>, whose source is not part of the
  files at hand. It is a parameter \<open>acc\<close> of the model: a function from the values of
  \<open>objects_count\<close>, \<open>x\<close>, \<open>m\<close> and \<open>G\<close> to the value of a newly allocated result, that is,
  a function that writes to none of its arguments.
\<close>

type_synonym acceleration = "nat \<Rightarrow> ndarray \<Rightarrow> ndarray \<Rightarrow> real \<Rightarrow> ndarray"

text \<open>
  The body of \<open>for j in range(stage)\<close>: \<open>temp_v += coeff[stage - 1][j] * vk[j]\<close> and
  \<open>temp_x += coeff[stage - 1][j] * xk[j]\<close>.
\<close>

definition add_stage_terms ::
  "real list list \<Rightarrow> nat \<Rightarrow> nat \<Rightarrow> nat \<Rightarrow> nat \<Rightarrow> nat \<Rightarrow> nat \<Rightarrow> memory \<Rightarrow> nat \<Rightarrow> memory" where
  "add_stage_terms coeff width vk xk temp_v temp_x stage mem j =
     (let mem = update_array temp_v
                  (arr_add (cells mem temp_v)
                     (arr_scale (coeff ! (stage - 1) ! j) (stage_block (cells mem vk) width j)))
                  mem;
          mem = update_array temp_x
                  (arr_add (cells mem temp_x)
                     (arr_scale (coeff ! (stage - 1) ! j) (stage_block (cells mem xk) width j)))
                  mem
      in mem)"

text \<open>The body of \<open>for stage in range(1, stages)\<close>.\<close>

definition compute_stage ::
  "acceleration \<Rightarrow> nat \<Rightarrow> nat \<Rightarrow> nat \<Rightarrow> nat \<Rightarrow> real \<Rightarrow> real \<Rightarrow> real list list \<Rightarrow> nat \<Rightarrow> nat
     \<Rightarrow> memory \<Rightarrow> nat \<Rightarrow> memory" where
  "compute_stage acc objects_count x v m G actual_dt coeff vk xk mem stage =
     (let (temp_v, mem) = new_array (zeros (objects_count * 3)) mem;
          (temp_x, mem) = new_array (zeros (objects_count * 3)) mem;
          mem = foldl (add_stage_terms coeff (objects_count * 3) vk xk temp_v temp_x stage)
                  mem [0..<stage];
          mem = update_stage vk (objects_count * 3) stage
                  (acc objects_count
                     (arr_add (cells mem x) (arr_scale actual_dt (cells mem temp_x)))
                     (cells mem m) G)
                  mem;
          mem = update_stage xk (objects_count * 3) stage
                  (arr_add (cells mem v) (arr_scale actual_dt (cells mem temp_v)))
                  mem
      in mem)"

text \<open>
  The body of \<open>for stage in range(stages)\<close>, which accumulates the weighted sums and the
  error estimates in place.
\<close>

definition add_weighted_stage ::
  "real list \<Rightarrow> real list \<Rightarrow> nat \<Rightarrow> nat \<Rightarrow> nat \<Rightarrow> nat \<Rightarrow> nat \<Rightarrow> nat \<Rightarrow> nat
     \<Rightarrow> memory \<Rightarrow> nat \<Rightarrow> memory" where
  "add_weighted_stage weights error_estimation_delta_weights width vk xk temp_v temp_x
       error_estimation_delta_v error_estimation_delta_x mem stage =
     (let mem = update_array temp_v
                  (arr_add (cells mem temp_v)
                     (arr_scale (weights ! stage) (stage_block (cells mem vk) width stage)))
                  mem;
          mem = update_array temp_x
                  (arr_add (cells mem temp_x)
                     (arr_scale (weights ! stage) (stage_block (cells mem xk) width stage)))
                  mem;
          mem = update_array error_estimation_delta_v
                  (arr_add (cells mem error_estimation_delta_v)
                     (arr_scale (error_estimation_delta_weights ! stage)
                        (stage_block (cells mem vk) width stage)))
                  mem;
          mem = update_array error_estimation_delta_x
                  (arr_add (cells mem error_estimation_delta_x)
                     (arr_scale (error_estimation_delta_weights ! stage)
                        (stage_block (cells mem xk) width stage)))
                  mem
      in mem)"

text \<open>
  The body of \<open>for i in range(max_iteration)\<close> up to the error is given in the three
  parts that the comments of the source name. First \<open># Calculate xk and vk\<close>.
\<close>

definition calculate_xk_vk ::
  "acceleration \<Rightarrow> nat \<Rightarrow> nat \<Rightarrow> nat \<Rightarrow> nat \<Rightarrow> real \<Rightarrow> real \<Rightarrow> real list list \<Rightarrow> nat \<Rightarrow> nat
     \<Rightarrow> nat \<Rightarrow> memory \<Rightarrow> memory" where
  "calculate_xk_vk acc objects_count x v m G actual_dt coeff stages vk xk mem =
     (let mem = update_stage vk (objects_count * 3) 0
                  (acc objects_count (cells mem x) (cells mem m) G) mem;
          mem = update_stage xk (objects_count * 3) 0 (cells mem v) mem
      in foldl (compute_stage acc objects_count x v m G actual_dt coeff vk xk)
           mem [1..<stages])"

text \<open>
  \<open># Calculate x_1, v_1 and also delta x, delta v for error estimation\<close>. The result
  holds the addresses of \<open>x_1\<close>, \<open>v_1\<close>, \<open>error_estimation_delta_x\<close> and
  \<open>error_estimation_delta_v\<close>.
\<close>

definition calculate_x_1_v_1 ::
  "nat \<Rightarrow> nat \<Rightarrow> nat \<Rightarrow> real \<Rightarrow> real list \<Rightarrow> real list \<Rightarrow> nat \<Rightarrow> nat \<Rightarrow> nat \<Rightarrow> memory
     \<Rightarrow> (nat \<times> nat \<times> nat \<times> nat) \<times> memory" where
  "calculate_x_1_v_1 objects_count x v actual_dt weights error_estimation_delta_weights
       stages vk xk mem =
     (let (temp_v, mem) = new_array (zeros (objects_count * 3)) mem;
          (temp_x, mem) = new_array (zeros (objects_count * 3)) mem;
          (error_estimation_delta_x, mem) = new_array (zeros (objects_count * 3)) mem;
          (error_estimation_delta_v, mem) = new_array (zeros (objects_count * 3)) mem;
          mem = foldl (add_weighted_stage weights error_estimation_delta_weights
                         (objects_count * 3) vk xk temp_v temp_x
                         error_estimation_delta_v error_estimation_delta_x)
                  mem [0..<stages];
          (v_1, mem) = new_array (arr_add (cells mem v) (arr_scale actual_dt (cells mem temp_v)))
                         mem;
          (x_1, mem) = new_array (arr_add (cells mem x) (arr_scale actual_dt (cells mem temp_x)))
                         mem;
          mem = update_array error_estimation_delta_v
                  (arr_scale actual_dt (cells mem error_estimation_delta_v)) mem;
          mem = update_array error_estimation_delta_x
                  (arr_scale actual_dt (cells mem error_estimation_delta_x)) mem
      in ((x_1, v_1, error_estimation_delta_x, error_estimation_delta_v), mem))"

text \<open>\<open># Error calculation\<close>: the tolerance scales, \<open>sum\<close> and \<open>error\<close>.\<close>

definition error_calculation ::
  "nat \<Rightarrow> nat \<Rightarrow> nat \<Rightarrow> nat \<Rightarrow> nat \<Rightarrow> nat \<Rightarrow> nat \<Rightarrow> real \<Rightarrow> real \<Rightarrow> memory \<Rightarrow> real \<times> memory" where
  "error_calculation objects_count x v x_1 v_1 error_estimation_delta_x
       error_estimation_delta_v abs_tolerance rel_tolerance mem =
     (let (tolerance_scale_v, mem) =
            new_array
              (arr_shift abs_tolerance
                 (arr_scale rel_tolerance
                    (arr_maximum (arr_abs (cells mem v)) (arr_abs (cells mem v_1)))))
              mem;
          (tolerance_scale_x, mem) =
            new_array
              (arr_shift abs_tolerance
                 (arr_scale rel_tolerance
                    (arr_maximum (arr_abs (cells mem x)) (arr_abs (cells mem x_1)))))
              mem;
          sum = arr_sum (arr_square
                  (arr_div (cells mem error_estimation_delta_x) (cells mem tolerance_scale_x)))
                + arr_sum (arr_square
                  (arr_div (cells mem error_estimation_delta_v) (cells mem tolerance_scale_v)));
          error = sqrt (sum / real (objects_count * 3 * 2))
      in (error, mem))"

text \<open>
  The three parts in sequence: one attempt, which returns the addresses of \<open>x_1\<close> and
  \<open>v_1\<close> and the value of \<open>error\<close>.
\<close>

definition rk_attempt ::
  "acceleration \<Rightarrow> nat \<Rightarrow> nat \<Rightarrow> nat \<Rightarrow> nat \<Rightarrow> real \<Rightarrow> real \<Rightarrow> real list list \<Rightarrow> real list
     \<Rightarrow> real list \<Rightarrow> nat \<Rightarrow> nat \<Rightarrow> nat \<Rightarrow> real \<Rightarrow> real \<Rightarrow> memory
     \<Rightarrow> (nat \<times> nat \<times> real) \<times> memory" where
  "rk_attempt acc objects_count x v m G actual_dt coeff weights
       error_estimation_delta_weights stages vk xk abs_tolerance rel_tolerance mem =
     (let mem = calculate_xk_vk acc objects_count x v m G actual_dt coeff stages vk xk mem;
          ((x_1, v_1, error_estimation_delta_x, error_estimation_delta_v), mem) =
            calculate_x_1_v_1 objects_count x v actual_dt weights
              error_estimation_delta_weights stages vk xk mem;
          (error, mem) =
            error_calculation objects_count x v x_1 v_1 error_estimation_delta_x
              error_estimation_delta_v abs_tolerance rel_tolerance mem
      in ((x_1, v_1, error), mem))"

subsection \<open>The loop\<close>

text \<open>
  The local variables that change from one attempt to the next: the addresses bound to
  \<open>x\<close> and \<open>v\<close>, and the values of \<open>t\<close> and \<open>actual_dt\<close>.
\<close>

record rk_locals =
  loc_x :: nat
  loc_v :: nat
  loc_t :: real
  loc_actual_dt :: real

text \<open>
  The parameters that stay fixed during the loop, with the names of the source;
  \<open>p_vk\<close> and \<open>p_xk\<close> are the addresses of the stage arrays.
\<close>

record rk_params =
  p_objects_count :: nat
  p_m :: nat
  p_G :: real
  p_expected_time_scale :: real
  p_simulation_time :: real
  p_min_power :: int
  p_coeff :: "real list list"
  p_weights :: "real list"
  p_error_estimation_delta_weights :: "real list"
  p_stages :: nat
  p_vk :: nat
  p_xk :: nat
  p_min_iteration :: nat
  p_abs_tolerance :: real
  p_rel_tolerance :: real

text \<open>The attempt of one iteration, from the current locals.\<close>

definition attempt_of ::
  "acceleration \<Rightarrow> rk_params \<Rightarrow> rk_locals \<Rightarrow> memory \<Rightarrow> (nat \<times> nat \<times> real) \<times> memory" where
  "attempt_of acc p l mem =
     rk_attempt acc (p_objects_count p) (loc_x l) (loc_v l) (p_m p) (p_G p) (loc_actual_dt l)
       (p_coeff p) (p_weights p) (p_error_estimation_delta_weights p) (p_stages p)
       (p_vk p) (p_xk p) (p_abs_tolerance p) (p_rel_tolerance p) mem"

text \<open>
  One iteration: the attempt, the statement
  \<open>if error <= 1 or actual_dt == expected_time_scale * 1e-12\<close> that rebinds \<open>t\<close>, \<open>x\<close>
  and \<open>v\<close>, and the new step size.
\<close>

definition rk_iteration ::
  "acceleration \<Rightarrow> rk_params \<Rightarrow> rk_locals \<Rightarrow> memory \<Rightarrow> rk_locals \<times> memory" where
  "rk_iteration acc p l mem =
     (let ((x_1, v_1, error), mem) = attempt_of acc p l mem;
          l' = (if error \<le> 1 \<or> loc_actual_dt l = p_expected_time_scale p * (1 / 10 ^ 12)
                then l\<lparr>loc_t := loc_t l + loc_actual_dt l, loc_x := x_1, loc_v := v_1\<rparr>
                else l)
      in (l'\<lparr>loc_actual_dt :=
               next_actual_dt error (loc_actual_dt l) (p_min_power p) (p_expected_time_scale p)\<rparr>,
          mem))"

text \<open>
  \<open>for i in range(max_iteration)\<close>, over the list of the remaining values of \<open>i\<close>, with
  the early \<open>return\<close> at the end of the body.
\<close>

fun rk_loop ::
  "acceleration \<Rightarrow> rk_params \<Rightarrow> nat list \<Rightarrow> rk_locals \<Rightarrow> memory \<Rightarrow> rk_locals \<times> memory" where
  "rk_loop acc p [] l mem = (l, mem)"
| "rk_loop acc p (i # is) l mem =
     (let (l, mem) = rk_iteration acc p l mem
      in if i \<ge> p_min_iteration p
            \<and> loc_t l > p_simulation_time p + p_expected_time_scale p * (1 / 10 ^ 5)
         then (l, mem)
         else rk_loop acc p is l mem)"

text \<open>
  \<open>rk_embedded\<close> (its parameter \<open>power\<close> is written \<open>power'\<close>): \<open>x\<close>, \<open>v\<close> and \<open>m\<close> are
  the addresses of the caller's arrays; \<open>coeff\<close>, \<open>weights\<close> and \<open>weights_test\<close> are only
  read and are passed as values. The result is the returned tuple
  \<open>(x, v, t, actual_dt)\<close>, \<open>x\<close> and \<open>v\<close> being addresses, and the memory.
\<close>

definition rk_embedded ::
  "acceleration \<Rightarrow> nat \<Rightarrow> nat \<Rightarrow> nat \<Rightarrow> nat \<Rightarrow> real \<Rightarrow> real \<Rightarrow> real \<Rightarrow> real \<Rightarrow> int \<Rightarrow> int
     \<Rightarrow> real list list \<Rightarrow> real list \<Rightarrow> real list \<Rightarrow> nat \<Rightarrow> nat \<Rightarrow> real \<Rightarrow> real \<Rightarrow> memory
     \<Rightarrow> (nat \<times> nat \<times> real \<times> real) \<times> memory" where
  "rk_embedded acc objects_count x v m G expected_time_scale simulation_time actual_dt
       power' power_test coeff weights weights_test max_iteration min_iteration
       abs_tolerance rel_tolerance mem =
     (let t = simulation_time;
          stages = length weights;
          min_power = min power' power_test;
          error_estimation_delta_weights = arr_sub weights weights_test;
          (vk, mem) = new_array (zeros (stages * objects_count * 3)) mem;
          (xk, mem) = new_array (zeros (stages * objects_count * 3)) mem;
          p = \<lparr>p_objects_count = objects_count, p_m = m, p_G = G,
               p_expected_time_scale = expected_time_scale,
               p_simulation_time = simulation_time, p_min_power = min_power,
               p_coeff = coeff, p_weights = weights,
               p_error_estimation_delta_weights = error_estimation_delta_weights,
               p_stages = stages, p_vk = vk, p_xk = xk, p_min_iteration = min_iteration,
               p_abs_tolerance = abs_tolerance, p_rel_tolerance = rel_tolerance\<rparr>;
          (l, mem) = rk_loop acc p [0..<max_iteration]
                       \<lparr>loc_x = x, loc_v = v, loc_t = t, loc_actual_dt = actual_dt\<rparr> mem
      in ((loc_x l, loc_v l, loc_t l, loc_actual_dt l), mem))"

subsection \<open>What an execution may write\<close>

text \<open>
  For the frame properties: relative to a bound \<open>n\<close>, a set \<open>W\<close> of addresses and the
  contents \<open>c0\<close> of some earlier memory, a memory is \<open>framed\<close> when every cell below
  \<open>n\<close> and outside \<open>W\<close> still has its earlier contents, and no address below \<open>n\<close> is
  free.
\<close>

definition framed :: "nat \<Rightarrow> nat set \<Rightarrow> (nat \<Rightarrow> ndarray) \<Rightarrow> memory \<Rightarrow> bool" where
  "framed n W c0 mem \<longleftrightarrow> n \<le> next_addr mem \<and> (\<forall>a<n. a \<notin> W \<longrightarrow> cells mem a = c0 a)"

subsection \<open>The initial time step (\<open>_rk_embedded_initial_time_step\<close>)\<close>

text \<open>
  The function creates every array it uses, so its arrays are plain values. The literals
  \<open>1e-5\<close>, \<open>1e-4\<close>, \<open>1e-15\<close>, \<open>1e-6\<close> and \<open>1e-3\<close> are written as quotients; the
  parameter \<open>power\<close> is written \<open>power'\<close>.
\<close>

definition rk_embedded_initial_time_step ::
  "acceleration \<Rightarrow> nat \<Rightarrow> int \<Rightarrow> ndarray \<Rightarrow> ndarray \<Rightarrow> ndarray \<Rightarrow> ndarray \<Rightarrow> real \<Rightarrow> real \<Rightarrow> real
     \<Rightarrow> real" where
  "rk_embedded_initial_time_step acc objects_count power' x v a m G abs_tolerance rel_tolerance =
     (let tolerance_scale_x = arr_shift abs_tolerance (arr_scale rel_tolerance (arr_abs x));
          tolerance_scale_v = arr_shift abs_tolerance (arr_scale rel_tolerance (arr_abs v));
          sum_0 = arr_sum (arr_square (arr_div x tolerance_scale_x))
                  + arr_sum (arr_square (arr_div v tolerance_scale_v));
          sum_1 = arr_sum (arr_square (arr_div v tolerance_scale_x))
                  + arr_sum (arr_square (arr_div a tolerance_scale_v));
          d_0 = sqrt (sum_0 / real (objects_count * 3 * 2));
          d_1 = sqrt (sum_1 / real (objects_count * 3 * 2));
          dt_0 = (if d_0 < 1 / 10 ^ 5 \<or> d_1 < 1 / 10 ^ 5 then 1 / 10 ^ 4 else d_0 / d_1);
          x_1 = arr_add x (arr_scale (dt_0 / 100) v);
          v_1 = arr_add v (arr_scale (dt_0 / 100) a);
          a_1 = acc objects_count x_1 m G;
          sum_2 = arr_sum (arr_square (arr_div (arr_sub v_1 v) tolerance_scale_x))
                  + arr_sum (arr_square (arr_div (arr_sub a_1 a) tolerance_scale_v));
          d_2 = sqrt (sum_2 / real (objects_count * 3 * 2)) / dt_0;
          dt_1 = (if max d_1 d_2 \<le> 1 / 10 ^ 15 then max (1 / 10 ^ 6) (dt_0 * (1 / 10 ^ 3))
                  else (0.01 / max d_1 d_2) powr (1 / (1 + real_of_int power')));
          dt = min (100 * dt_0) dt_1
      in dt * (1 / 10 ^ 3))"

text \<open>
  The same quantity as the specification words it, for one tolerance used both as
  absolute and as relative tolerance: the tolerance-scaled root mean square of two
  arrays over the 6N components,
  \<open>\<surd>(\<Sum>(p / sp)\<^sup>2 + \<Sum>(q / sq)\<^sup>2) / \<surd>(6N)\<close>, and the estimate built from it.
\<close>

definition scaled_rms :: "nat \<Rightarrow> ndarray \<Rightarrow> ndarray \<Rightarrow> ndarray \<Rightarrow> ndarray \<Rightarrow> real" where
  "scaled_rms N p sp q sq =
     sqrt (sum_list (map2 (\<lambda>u s. (u / s) ^ 2) p sp) + sum_list (map2 (\<lambda>u s. (u / s) ^ 2) q sq))
       / sqrt (real (6 * N))"

definition initial_step_spec ::
  "acceleration \<Rightarrow> nat \<Rightarrow> int \<Rightarrow> ndarray \<Rightarrow> ndarray \<Rightarrow> ndarray \<Rightarrow> ndarray \<Rightarrow> real \<Rightarrow> real \<Rightarrow> real" where
  "initial_step_spec acc N p x v a m G tolerance =
     (let sx = map (\<lambda>xi. tolerance + tolerance * \<bar>xi\<bar>) x;
          sv = map (\<lambda>vi. tolerance + tolerance * \<bar>vi\<bar>) v;
          d_0 = scaled_rms N x sx v sv;
          d_1 = scaled_rms N v sx a sv;
          dt_0 = (if min d_0 d_1 < 1 / 10 ^ 5 then 1 / 10 ^ 4 else d_0 / d_1);
          probe = dt_0 / 100;
          x_probe = map2 (\<lambda>xi vi. xi + probe * vi) x v;
          v_probe = map2 (\<lambda>vi ai. vi + probe * ai) v a;
          a_probe = acc N x_probe m G;
          d_2 = scaled_rms N (map2 (-) v_probe v) sx (map2 (-) a_probe a) sv / dt_0;
          dt_1 = (if max d_1 d_2 \<le> 1 / 10 ^ 15 then max (1 / 10 ^ 6) (dt_0 * (1 / 10 ^ 3))
                  else (0.01 / max d_1 d_2) powr (1 / (1 + real_of_int p)))
      in (1 / 10 ^ 3) * min (100 * dt_0) dt_1)"

subsection \<open>A one-body example\<close>

text \<open>
  For a single body the pairwise sum of the acceleration kernel is empty, so its
  acceleration is zero. The memory holds the caller's arrays: \<open>x\<close> at address 0, \<open>v\<close> at
  address 1 and \<open>m\<close> at address 2.
\<close>

definition one_body_acceleration :: acceleration where
  "one_body_acceleration objects_count x m G = zeros (objects_count * 3)"

definition one_body_memory :: memory where
  "one_body_memory =
     \<lparr>cells = (\<lambda>a. [])(0 := [0, 0, 0], 1 := [1, 0, 0], 2 := [1]), next_addr = 3\<rparr>"

text \<open>
  The memory, the parameters and the locals at the first iteration of \<open>rk_embedded\<close> on
  this body with the tableau of order 45: the stage arrays are at the addresses 3 and 4.
\<close>

definition one_body_loop_memory :: memory where
  "one_body_loop_memory =
     snd (new_array (zeros (6 * 1 * 3)) (snd (new_array (zeros (6 * 1 * 3)) one_body_memory)))"

definition one_body_params :: rk_params where
  "one_body_params =
     \<lparr>p_objects_count = 1, p_m = 2, p_G = 1,
      p_expected_time_scale = 1, p_simulation_time = 0, p_min_power = min 4 5,
      p_coeff = rkf45_coeff, p_weights = rkf45_weights,
      p_error_estimation_delta_weights = arr_sub rkf45_weights rkf45_weights_test,
      p_stages = 6, p_vk = 3, p_xk = 4, p_min_iteration = 1,
      p_abs_tolerance = 1 / 10 ^ 9, p_rel_tolerance = 1 / 10 ^ 9\<rparr>"

definition one_body_locals :: rk_locals where
  "one_body_locals = \<lparr>loc_x = 0, loc_v = 1, loc_t = 0, loc_actual_dt = 1 / 10 ^ 3\<rparr>"

section \<open>Theorems\<close>

subsection \<open>Butcher tableaus\<close>

text \<open>
  C10. \<open>rk_embedded_butcher_tableaus\<close> raises \<open>ValueError\<close> exactly when \<open>order\<close> is not
  one of 45, 54, 78, 65, and returns a tuple (power, power_test, coeff, weights,
  weights_test) exactly when it is one of them.
\<close>

theorem butcher_tableaus_raises_iff:
  "(rk_embedded_butcher_tableaus order = Inl ValueError) = (order \<notin> {45, 54, 78, 65})
   \<and> (\<exists>power power_test coeff weights weights_test.
         rk_embedded_butcher_tableaus order =
           Inr (power, power_test, coeff, weights, weights_test))
       = (order \<in> {45, 54, 78, 65})"
  by (simp add: rk_embedded_butcher_tableaus_def)

text \<open>
  Weights: for each of the four tableaus the advance weights and the companion (test)
  weights sum to 1.
\<close>

lemma rkf45_weights_sum: "sum_list rkf45_weights = 1 \<and> sum_list rkf45_weights_test = 1"
  by (simp add: rkf45_weights_def rkf45_weights_test_def)

lemma dopri_weights_sum: "sum_list dopri_weights = 1 \<and> sum_list dopri_weights_test = 1"
  by (simp add: dopri_weights_def dopri_weights_test_def)

lemma rkf78_weights_sum: "sum_list rkf78_weights = 1 \<and> sum_list rkf78_weights_test = 1"
  by (simp add: rkf78_weights_def rkf78_weights_test_def)

lemma dverk_weights_sum: "sum_list dverk_weights = 1 \<and> sum_list dverk_weights_test = 1"
  by (simp add: dverk_weights_def dverk_weights_test_def)

text \<open>
  Rows: in the tableaus 45, 54 and 65 every row of \<open>coeff\<close> sums to its node. In the
  tableau 78 the first eleven rows do; the twelfth row sums to 48/41 where the node is 1.
\<close>

lemma rkf45_row_sums: "map sum_list rkf45_coeff = rkf45_nodes"
  by (simp add: rkf45_coeff_def rkf45_nodes_def)

lemma dopri_row_sums: "map sum_list dopri_coeff = dopri_nodes"
  by (simp add: dopri_coeff_def dopri_nodes_def)

lemma dverk_row_sums: "map sum_list dverk_coeff = dverk_nodes"
  by (simp add: dverk_coeff_def dverk_nodes_def)

lemma rkf78_row_sums: "map sum_list rkf78_coeff = rkf78_nodes[11 := 48 / 41]"
  by (simp add: rkf78_coeff_def rkf78_nodes_def)

text \<open>
  C4 (evaluation at order 78). The tableau returned for order 78 has a twelfth row of
  \<open>coeff\<close> (index 11) whose entries sum to 48/41, while the node of that row is 1: the
  row-sum condition of the claim fails there.
\<close>

theorem rkf78_last_row_sum:
  "rk_embedded_butcher_tableaus 78 =
     Inr (7, 8, rkf78_coeff, rkf78_weights, rkf78_weights_test)
   \<and> sum_list (rkf78_coeff ! 11) = 48 / 41
   \<and> nodes_of 78 ! 11 = 1
   \<and> sum_list (rkf78_coeff ! 11) \<noteq> nodes_of 78 ! 11"
  by (simp add: rk_embedded_butcher_tableaus_def rkf78_coeff_def nodes_of_def rkf78_nodes_def)

subsection \<open>Gravitational constants\<close>

lemma CONSTANT_G_value:
  "CONSTANT_G = 36692335422612933765120 / 123997369474472183860717009"
  by (simp add: CONSTANT_G_def CONVERSION_FACTOR_def power3_eq_cube power2_eq_square)

text \<open>
  C7 (counterexample). \<open>Grav_obj.G\<close> of the real-time program is not the constant
  0.00029591220828411...: it differs from \<open>CONSTANT_G\<close> and lies outside the interval
  of the reals whose decimal expansion starts with these digits.
\<close>

theorem Grav_obj_G_not_CONSTANT_G:
  "Grav_obj_G \<noteq> CONSTANT_G
   \<and> \<not> (0.00029591220828411 \<le> Grav_obj_G \<and> Grav_obj_G < 0.00029591220828412)"
  unfolding CONSTANT_G_value by (simp add: Grav_obj_G_def)

text \<open>
  C7 (amended). \<open>CONSTANT_G\<close>, the DE440 GM of the Sun times the conversion factor, has a
  decimal expansion that starts 0.00029591220828411, and the value printed to the user
  is this truncation. \<open>Grav_obj.G\<close> is the different literal 0.00029591220828559, larger
  than \<open>CONSTANT_G\<close> by between 1.47e-15 and 1.48e-15.
\<close>

theorem gravitational_constants:
  "0.00029591220828411 \<le> CONSTANT_G \<and> CONSTANT_G < 0.00029591220828412
   \<and> printed_note_G = 0.00029591220828411
   \<and> printed_note_G \<le> CONSTANT_G \<and> CONSTANT_G < printed_note_G + 1 / 10 ^ 17
   \<and> Grav_obj_G = 0.00029591220828559
   \<and> 1.47 / 10 ^ 15 < Grav_obj_G - CONSTANT_G \<and> Grav_obj_G - CONSTANT_G < 1.48 / 10 ^ 15"
  unfolding CONSTANT_G_value by (simp add: Grav_obj_G_def printed_note_G_def)

subsection \<open>Barycentre of the pre-defined systems\<close>

lemma vadd_vzero [simp]: "vadd a vzero = a" "vadd vzero a = a"
  by (cases a; simp add: vzero_def)+

lemma vadd_assoc: "vadd (vadd a b) c = vadd a (vadd b c)"
  by (cases a; cases b; cases c; simp)

lemma foldl_vadd: "foldl vadd t ts = vadd t (foldr vadd ts vzero)"
  by (induction ts arbitrary: t) (simp_all add: vadd_assoc)

lemma weighted_terms_sum_moment: "weighted_terms_sum ms ps = moment ms ps"
  by (simp add: weighted_terms_sum_def moment_def foldl_vadd split: list.split)

lemma moment_shift:
  "length ms = length ps \<Longrightarrow>
   moment ms (map (\<lambda>p. vsub p c) ps) = vsub (moment ms ps) (vscale (sum_list ms) c)"
proof (induction ms ps rule: list_induct2)
  case Nil
  then show ?case by (cases c) (simp add: moment_def vzero_def)
next
  case (Cons m ms p ps)
  then show ?case
    by (cases c; cases p; cases "moment ms ps")
       (simp add: moment_def algebra_simps)
qed

lemma vscale_inverse: "s \<noteq> 0 \<Longrightarrow> vscale s (vscale (1 / s) a) = a"
  by (cases a) simp

lemma vsub_self: "vsub a a = vzero"
  by (cases a) (simp add: vzero_def)

lemma moment_barycentric:
  assumes "sum_list ms \<noteq> 0" "length ms = length ps"
  shows "moment ms (map (\<lambda>p. vsub p (vscale (1 / sum_list ms) (weighted_terms_sum ms ps))) ps)
         = vzero"
  using assms by (simp add: moment_shift weighted_terms_sum_moment vscale_inverse vsub_self)

lemma masses_pos: "0 < SOLAR_SYSTEM_MASSES b"
  by (cases b) simp_all

lemma sum_list_masses_pos: "bodies \<noteq> [] \<Longrightarrow> 0 < sum_list (map SOLAR_SYSTEM_MASSES bodies)"
proof (cases bodies)
  case Nil
  assume "bodies \<noteq> []"
  with Nil show ?thesis by simp
next
  case (Cons b bs)
  have "0 \<le> sum_list (map SOLAR_SYSTEM_MASSES bs)"
    by (rule sum_list_nonneg) (auto simp: masses_pos less_imp_le)
  with masses_pos[of b] Cons show ?thesis by simp
qed

lemma barycentric_system_moment:
  assumes "bodies \<noteq> []"
  shows "moment (sim_m (barycentric_system bodies)) (sim_x (barycentric_system bodies)) = vzero"
    and "moment (sim_m (barycentric_system bodies)) (sim_v (barycentric_system bodies)) = vzero"
proof -
  let ?m = "map SOLAR_SYSTEM_MASSES bodies"
  have s: "sum_list ?m \<noteq> 0" using sum_list_masses_pos[OF assms] by simp
  have x: "sim_x (barycentric_system bodies) =
      map (\<lambda>p. vsub p (vscale (1 / sum_list ?m) (weighted_terms_sum ?m (map SOLAR_SYSTEM_POS bodies))))
        (map SOLAR_SYSTEM_POS bodies)"
    by (simp add: barycentric_system_def Let_def comp_def)
  have v: "sim_v (barycentric_system bodies) =
      map (\<lambda>p. vsub p (vscale (1 / sum_list ?m) (weighted_terms_sum ?m (map SOLAR_SYSTEM_VEL bodies))))
        (map SOLAR_SYSTEM_VEL bodies)"
    by (simp add: barycentric_system_def Let_def comp_def)
  have m: "sim_m (barycentric_system bodies) = ?m"
    by (simp add: barycentric_system_def Let_def)
  show "moment (sim_m (barycentric_system bodies)) (sim_x (barycentric_system bodies)) = vzero"
    unfolding x m using s by (intro moment_barycentric) simp_all
  show "moment (sim_m (barycentric_system bodies)) (sim_v (barycentric_system bodies)) = vzero"
    unfolding v m using s by (intro moment_barycentric) simp_all
qed

lemma G_pos: "0 < CONSTANT_G"
  unfolding CONSTANT_G_value by simp


lemma binary_and_three_body_moments:
  "moment (sim_m (initialize_system_numpy ''circular_binary_orbit''))
     (sim_x (initialize_system_numpy ''circular_binary_orbit'')) = vzero"
  "moment (sim_m (initialize_system_numpy ''circular_binary_orbit''))
     (sim_v (initialize_system_numpy ''circular_binary_orbit'')) = vzero"
  "moment (sim_m (initialize_system_numpy ''eccentric_binary_orbit''))
     (sim_x (initialize_system_numpy ''eccentric_binary_orbit'')) = vzero"
  "moment (sim_m (initialize_system_numpy ''eccentric_binary_orbit''))
     (sim_v (initialize_system_numpy ''eccentric_binary_orbit'')) = vzero"
  "moment (sim_m (initialize_system_numpy ''figure-8''))
     (sim_x (initialize_system_numpy ''figure-8'')) = vzero"
  "moment (sim_m (initialize_system_numpy ''figure-8''))
     (sim_v (initialize_system_numpy ''figure-8'')) = vzero"
  "moment (sim_m (initialize_system_numpy ''pyth-3-body''))
     (sim_x (initialize_system_numpy ''pyth-3-body'')) = vzero"
  "moment (sim_m (initialize_system_numpy ''pyth-3-body''))
     (sim_v (initialize_system_numpy ''pyth-3-body'')) = vzero"
  using G_pos
  by (simp_all add: initialize_system_numpy_def moment_def vzero_def Let_def algebra_simps)

lemma helix_moments:
  "moment (sim_m (initialize_system_numpy ''3d_helix''))
     (sim_x (initialize_system_numpy ''3d_helix'')) = vzero"
  "moment (sim_m (initialize_system_numpy ''3d_helix''))
     (sim_v (initialize_system_numpy ''3d_helix'')) = (0, 1.5 / CONSTANT_G, 0)"
  using G_pos
  by (simp_all add: initialize_system_numpy_def moment_def vzero_def Let_def algebra_simps)

lemma solar_moments:
  "moment (sim_m (initialize_system_numpy ''sun_earth_moon''))
     (sim_x (initialize_system_numpy ''sun_earth_moon'')) = vzero"
  "moment (sim_m (initialize_system_numpy ''sun_earth_moon''))
     (sim_v (initialize_system_numpy ''sun_earth_moon'')) = vzero"
  "moment (sim_m (initialize_system_numpy ''solar_system''))
     (sim_x (initialize_system_numpy ''solar_system'')) = vzero"
  "moment (sim_m (initialize_system_numpy ''solar_system''))
     (sim_v (initialize_system_numpy ''solar_system'')) = vzero"
  "moment (sim_m (initialize_system_numpy ''solar_system_plus''))
     (sim_x (initialize_system_numpy ''solar_system_plus'')) = vzero"
  "moment (sim_m (initialize_system_numpy ''solar_system_plus''))
     (sim_v (initialize_system_numpy ''solar_system_plus'')) = vzero"
  by (simp_all add: initialize_system_numpy_def barycentric_system_moment)

text \<open>
  C5 (counterexample). The pre-defined system \<open>3d_helix\<close> starts with a total momentum
  \<open>\<Sum> m\<^sub>i * v\<^sub>i\<close> that is not the zero vector: its second component is 1.5 / G.
\<close>

theorem helix_momentum_not_zero:
  "moment (sim_m (initialize_system_numpy ''3d_helix''))
     (sim_v (initialize_system_numpy ''3d_helix'')) \<noteq> (0, 0, 0)"
  using G_pos by (simp add: helix_moments)

text \<open>
  C5 (amended). For every pre-defined system other than \<open>3d_helix\<close> the initial state
  has \<open>\<Sum> m\<^sub>i * x\<^sub>i = 0\<close> and \<open>\<Sum> m\<^sub>i * v\<^sub>i = 0\<close>. For \<open>3d_helix\<close> the first sum is
  zero and the second is the vector (0, 1.5 / G, 0).
\<close>

theorem preset_barycentre:
  "(system \<in> {''circular_binary_orbit'', ''eccentric_binary_orbit'', ''sun_earth_moon'',
       ''figure-8'', ''pyth-3-body'', ''solar_system'', ''solar_system_plus''} \<longrightarrow>
     moment (sim_m (initialize_system_numpy system)) (sim_x (initialize_system_numpy system))
       = (0, 0, 0)
     \<and> moment (sim_m (initialize_system_numpy system)) (sim_v (initialize_system_numpy system))
       = (0, 0, 0))
   \<and> moment (sim_m (initialize_system_numpy ''3d_helix''))
         (sim_x (initialize_system_numpy ''3d_helix'')) = (0, 0, 0)
   \<and> moment (sim_m (initialize_system_numpy ''3d_helix''))
         (sim_v (initialize_system_numpy ''3d_helix'')) = (0, 1.5 / CONSTANT_G, 0)"
proof (intro conjI)
  let ?ok = "\<lambda>s. moment (sim_m (initialize_system_numpy s)) (sim_x (initialize_system_numpy s))
       = (0, 0, 0)
     \<and> moment (sim_m (initialize_system_numpy s)) (sim_v (initialize_system_numpy s))
       = (0, 0, 0)"
  have 1: "?ok ''circular_binary_orbit''" and 2: "?ok ''eccentric_binary_orbit''"
    and 3: "?ok ''figure-8''" and 4: "?ok ''pyth-3-body''"
    using binary_and_three_body_moments unfolding vzero_def by blast+
  have 5: "?ok ''sun_earth_moon''" and 6: "?ok ''solar_system''"
    and 7: "?ok ''solar_system_plus''"
    using solar_moments unfolding vzero_def by blast+
  show "system \<in> {''circular_binary_orbit'', ''eccentric_binary_orbit'', ''sun_earth_moon'',
       ''figure-8'', ''pyth-3-body'', ''solar_system'', ''solar_system_plus''} \<longrightarrow> ?ok system"
  proof
    assume "system \<in> {''circular_binary_orbit'', ''eccentric_binary_orbit'', ''sun_earth_moon'',
       ''figure-8'', ''pyth-3-body'', ''solar_system'', ''solar_system_plus''}"
    then have "system = ''circular_binary_orbit'' \<or> system = ''eccentric_binary_orbit''
      \<or> system = ''sun_earth_moon'' \<or> system = ''figure-8'' \<or> system = ''pyth-3-body''
      \<or> system = ''solar_system'' \<or> system = ''solar_system_plus''"
      by (simp only: insert_iff empty_iff simp_thms)
    with 1 2 3 4 5 6 7 show "?ok system" by blast
  qed
  show "moment (sim_m (initialize_system_numpy ''3d_helix''))
         (sim_x (initialize_system_numpy ''3d_helix'')) = (0, 0, 0)"
    using helix_moments(1) by (simp only: vzero_def)
  show "moment (sim_m (initialize_system_numpy ''3d_helix''))
         (sim_v (initialize_system_numpy ''3d_helix'')) = (0, 1.5 / CONSTANT_G, 0)"
    by (rule helix_moments(2))
qed

theorem preset_barycentre_witness:
  "''solar_system_plus'' \<in> {''circular_binary_orbit'', ''eccentric_binary_orbit'',
       ''sun_earth_moon'', ''figure-8'', ''pyth-3-body'', ''solar_system'',
       ''solar_system_plus''}
   \<and> moment (sim_m (initialize_system_numpy ''solar_system_plus''))
         (sim_x (initialize_system_numpy ''solar_system_plus'')) = (0, 0, 0)
   \<and> moment (sim_m (initialize_system_numpy ''solar_system_plus''))
         (sim_v (initialize_system_numpy ''solar_system_plus'')) = (0, 0, 0)"
proof -
  have mem: "''solar_system_plus'' \<in> {''circular_binary_orbit'', ''eccentric_binary_orbit'',
       ''sun_earth_moon'', ''figure-8'', ''pyth-3-body'', ''solar_system'',
       ''solar_system_plus''}"
    by (simp only: insert_iff simp_thms)
  from preset_barycentre [of "''solar_system_plus''"] mem show ?thesis by blast
qed

subsection \<open>Total energy at coinciding bodies\<close>

lemma vnorm_vsub_self [simp]: "vnorm (vsub a a) = 0"
  by (cases a) simp

lemma vnorm_eq_0_iff: "vnorm (vsub a b) = 0 \<longleftrightarrow> a = b"
proof (cases a; cases b)
  fix a1 a2 a3 b1 b2 b3
  assume ab: "a = (a1, a2, a3)" "b = (b1, b2, b3)"
  have "(a1 - b1) * (a1 - b1) + (a2 - b2) * (a2 - b2) + (a3 - b3) * (a3 - b3) = 0
        \<longleftrightarrow> a1 = b1 \<and> a2 = b2 \<and> a3 = b3"
    using sum_squares_eq_zero_iff [of "a1 - b1" "a2 - b2"]
      add_nonneg_eq_0_iff [of "(a1 - b1) * (a1 - b1) + (a2 - b2) * (a2 - b2)"
        "(a3 - b3) * (a3 - b3)"]
    by auto
  then show ?thesis using ab by simp
qed

lemma total_energy_pairs_None:
  "k \<in> set ks \<Longrightarrow> j < k \<Longrightarrow> x ! j = x ! k \<Longrightarrow> total_energy_pairs G x m j ks E = None"
  by (induction ks arbitrary: E) (auto simp: Let_def)

lemma total_energy_pairs_Some:
  "\<forall>k \<in> set ks. j < k \<longrightarrow> x ! j \<noteq> x ! k \<Longrightarrow> \<exists>E'. total_energy_pairs G x m j ks E = Some E'"
  by (induction ks arbitrary: E) (auto simp: Let_def vnorm_eq_0_iff)

lemma total_energy_bodies_None:
  "j \<in> set js \<Longrightarrow> k < N \<Longrightarrow> j < k \<Longrightarrow> x ! j = x ! k \<Longrightarrow>
   total_energy_bodies N G x v m js E = None"
proof (induction js arbitrary: E)
  case Nil
  then show ?case by simp
next
  case (Cons i js)
  show ?case
  proof (cases "i = j")
    case True
    with Cons.prems total_energy_pairs_None [of k "[0..<N]" j x G m] show ?thesis
      by simp
  next
    case False
    with Cons show ?thesis by (auto split: option.split)
  qed
qed

lemma total_energy_bodies_Some:
  "\<forall>j \<in> set js. \<forall>k < N. j < k \<longrightarrow> x ! j \<noteq> x ! k \<Longrightarrow>
   \<exists>E'. total_energy_bodies N G x v m js E = Some E'"
proof (induction js arbitrary: E)
  case Nil
  then show ?case by simp
next
  case (Cons i js)
  have "\<forall>k \<in> set [0..<N]. i < k \<longrightarrow> x ! i \<noteq> x ! k"
    using Cons.prems by simp
  from total_energy_pairs_Some [OF this]
  obtain E1 where "total_energy_pairs G x m i [0..<N]
      (E + 0.5 * m ! i * (vnorm (v ! i)) ^ 2) = Some E1"
    by blast
  moreover have "\<exists>E'. total_energy_bodies N G x v m js E1 = Some E'"
    using Cons.IH Cons.prems by simp
  ultimately show ?case by simp
qed

text \<open>
  \<open>total_energy\<close> returns NaN exactly when two of the \<open>N\<close> bodies are at the same
  position.
\<close>

lemma total_energy_NaN_iff:
  "total_energy N x v m G = NaN \<longleftrightarrow> (\<exists>j k. j < k \<and> k < N \<and> x ! j = x ! k)"
proof
  assume nan: "total_energy N x v m G = NaN"
  show "\<exists>j k. j < k \<and> k < N \<and> x ! j = x ! k"
  proof (rule ccontr)
    assume "\<not> (\<exists>j k. j < k \<and> k < N \<and> x ! j = x ! k)"
    then have "\<forall>j \<in> set [0..<N]. \<forall>k < N. j < k \<longrightarrow> x ! j \<noteq> x ! k" by auto
    then have "\<exists>E'. total_energy_bodies N G x v m [0..<N] 0 = Some E'"
      by (rule total_energy_bodies_Some)
    with nan show False by (auto simp: total_energy_def)
  qed
next
  assume "\<exists>j k. j < k \<and> k < N \<and> x ! j = x ! k"
  then obtain j k where "j < k" "k < N" "x ! j = x ! k" by blast
  then have "total_energy_bodies N G x v m [0..<N] 0 = None"
    by (intro total_energy_bodies_None [of j _ k]) auto
  then show "total_energy N x v m G = NaN" by (simp add: total_energy_def)
qed

lemma length_compute_energy: "length (compute_energy N G m states) = length states"
  by (simp add: compute_energy_def)

text \<open>
  C6 (evaluation at two bodies of mass 1 at the origin, at rest). \<open>total_energy\<close>
  returns NaN for this state; \<open>compute_energy\<close> emits one entry for the sample, and
  this entry is minus infinity, not NaN.
\<close>

theorem compute_energy_coinciding_pair:
  "total_energy 2 [(0, 0, 0), (0, 0, 0)] [(0, 0, 0), (0, 0, 0)] [1, 1] Grav_obj_G = NaN
   \<and> compute_energy 2 CONSTANT_G [1, 1] [[0, 0, 0, 0, 0, 0, 0, 0, 0, 0, 0, 0]] = [NegInf]
   \<and> NegInf \<noteq> NaN"
proof -
  have u2: "[0..<2] = [0, Suc 0]" "[Suc 0..<2] = [Suc 0]" "[Suc (Suc 0)..<2] = []"
    by (simp_all add: upt_rec)
  have "total_energy 2 [(0, 0, 0), (0, 0, 0)] [(0, 0, 0), (0, 0, 0)] [1, 1] Grav_obj_G = NaN"
    by (simp add: total_energy_NaN_iff) (rule exI [of _ 0], rule exI [of _ 1], simp)
  moreover have
    "compute_energy 2 CONSTANT_G [1, 1] [[0, 0, 0, 0, 0, 0, 0, 0, 0, 0, 0, 0]] = [NegInf]"
    using G_pos
    by (simp add: compute_energy_def energy_of_body_def potential_step_def slice3_def
        fsub_def fdiv_def u2)
  ultimately show ?thesis by simp
qed

subsection \<open>Trimming the stored solution\<close>

lemma nat_eq_by_less: "(\<And>k::nat. k < a \<longleftrightarrow> k < b) \<Longrightarrow> a = b"
  by (metis linorder_neqE_nat order_less_irrefl)

lemma copy_column_loop:
  assumes "0 < d"
  shows "\<exists>j dst'. foldl (copy_column d src) (0, dst) [0..<n] = (j, dst')
           \<and> (\<forall>k. k < j \<longleftrightarrow> k * d < n)
           \<and> length dst' = length dst
           \<and> (\<forall>k < length dst. dst' ! k = (if k * d < n then src ! (k * d) else dst ! k))"
proof (induction n)
  case 0
  then show ?case by simp
next
  case (Suc n)
  then obtain j dst' where
    f: "foldl (copy_column d src) (0, dst) [0..<n] = (j, dst')"
    and j: "\<And>k. k < j \<longleftrightarrow> k * d < n"
    and l: "length dst' = length dst"
    and c: "\<forall>k < length dst. dst' ! k = (if k * d < n then src ! (k * d) else dst ! k)"
    by blast
  show ?case
  proof (cases "n mod d = 0")
    case True
    then have n: "n = (n div d) * d" by auto
    have "\<And>k. k * d < n \<longleftrightarrow> k < n div d"
    proof -
      fix k
      have "k * d < n \<longleftrightarrow> k * d < (n div d) * d" using n by simp
      then show "k * d < n \<longleftrightarrow> k < n div d" using assms by simp
    qed
    with j have jq: "j = n div d" by (intro nat_eq_by_less) simp
    have step: "foldl (copy_column d src) (0, dst) [0..<Suc n]
        = (Suc j, dst'[j := src ! n])"
      using f True by (simp add: copy_column_def)
    have j': "\<forall>k. k < Suc j \<longleftrightarrow> k * d < Suc n"
    proof
      fix k
      have "k * d < Suc n \<longleftrightarrow> k * d \<le> (n div d) * d" using n by (simp add: less_Suc_eq_le)
      also have "\<dots> \<longleftrightarrow> k \<le> n div d" using assms by simp
      finally show "k < Suc j \<longleftrightarrow> k * d < Suc n" using jq by auto
    qed
    have "\<forall>k < length dst. (dst'[j := src ! n]) ! k
        = (if k * d < Suc n then src ! (k * d) else dst ! k)"
    proof (intro allI impI)
      fix k assume k: "k < length dst"
      show "(dst'[j := src ! n]) ! k = (if k * d < Suc n then src ! (k * d) else dst ! k)"
      proof (cases "k = j")
        case True
        then have "k * d = n" using n jq by simp
        then show ?thesis using True k l by simp
      next
        case False
        then have "k * d \<noteq> n" using assms jq by auto
        then have "k * d < Suc n \<longleftrightarrow> k * d < n" by auto
        then show ?thesis using False c k by simp
      qed
    qed
    with step l j' show ?thesis by simp
  next
    case False
    have step: "foldl (copy_column d src) (0, dst) [0..<Suc n] = (j, dst')"
      using f False by (simp add: copy_column_def)
    have "\<And>k. k * d \<noteq> n" using False by auto
    then have e: "\<And>k. k * d < Suc n \<longleftrightarrow> k * d < n" by (simp add: less_Suc_eq)
    with c have "\<forall>k < length dst. dst' ! k = (if k * d < Suc n then src ! (k * d) else dst ! k)"
      by simp
    with step l j e show ?thesis by simp
  qed
qed

text \<open>Every index the loop writes is an index of the trimmed arrays.\<close>

lemma trim_loop_index_in_range:
  assumes "0 < d" "i < S" "i mod d = 0"
    and "foldl (copy_column d src) (0, dst) [0..<i] = (j, dst')"
  shows "j < S div d + 1"
proof -
  from copy_column_loop [OF assms(1), of src dst i] assms(4)
  have j: "\<And>k. k < j \<longleftrightarrow> k * d < i" by auto
  from assms(3) have i: "i = (i div d) * d" by auto
  have "\<And>k. k * d < i \<longleftrightarrow> k < i div d"
  proof -
    fix k
    have "k * d < i \<longleftrightarrow> k * d < (i div d) * d" using i by simp
    then show "k * d < i \<longleftrightarrow> k < i div d" using assms(1) by simp
  qed
  with j have "j = i div d" by (intro nat_eq_by_less) simp
  moreover have "i div d \<le> S div d" using assms(2) by (simp add: div_le_mono)
  ultimately show ?thesis by simp
qed

lemma trim_step_column:
  "trim_step d ce sim (j0, tr0) i = (j1, tr1) \<Longrightarrow>
   copy_column d (sol_time sim) (j0, sol_time tr0) i = (j1, sol_time tr1)
   \<and> copy_column d (sol_dt sim) (j0, sol_dt tr0) i = (j1, sol_dt tr1)
   \<and> copy_column d (sol_state sim) (j0, sol_state tr0) i = (j1, sol_state tr1)
   \<and> (ce \<longrightarrow> copy_column d (energy sim) (j0, energy tr0) i = (j1, energy tr1))
   \<and> (\<not> ce \<longrightarrow> energy tr1 = energy tr0)"
  by (auto simp: trim_step_def copy_column_def split: if_splits)

lemma trim_step_columns:
  "foldl (trim_step d ce sim) (j0, tr0) is = (j, tr) \<Longrightarrow>
   foldl (copy_column d (sol_time sim)) (j0, sol_time tr0) is = (j, sol_time tr)
   \<and> foldl (copy_column d (sol_dt sim)) (j0, sol_dt tr0) is = (j, sol_dt tr)
   \<and> foldl (copy_column d (sol_state sim)) (j0, sol_state tr0) is = (j, sol_state tr)
   \<and> (ce \<longrightarrow> foldl (copy_column d (energy sim)) (j0, energy tr0) is = (j, energy tr))
   \<and> (\<not> ce \<longrightarrow> energy tr = energy tr0)"
proof (induction "is" arbitrary: j0 tr0)
  case Nil
  then show ?case by simp
next
  case (Cons i "is")
  obtain j1 tr1 where s: "trim_step d ce sim (j0, tr0) i = (j1, tr1)"
    by (cases "trim_step d ce sim (j0, tr0) i")
  with Cons.prems have "foldl (trim_step d ce sim) (j1, tr1) is = (j, tr)" by simp
  from Cons.IH [OF this] trim_step_column [OF s] show ?case by simp
qed


lemma divide_factor_pos: "0 < desired \<Longrightarrow> desired < S \<Longrightarrow> 1 < divide_factor S desired"
proof -
  assume a: "0 < desired" "desired < S"
  then have "1 < real S / real desired" by simp
  then have "1 < \<lceil>real S / real desired\<rceil>" by linarith
  then show ?thesis by (simp add: divide_factor_def)
qed

lemma trim_size_div: "trim_size S desired = S div divide_factor S desired + 1"
  by (simp add: trim_size_def floor_divide_of_nat_eq)

lemma last_kept_index:
  fixes d :: nat assumes "0 < d"
  shows "(S div d) * d < S \<longleftrightarrow> \<not> d dvd S" and "k < S div d \<Longrightarrow> k * d < S"
proof -
  have e: "S div d * d + S mod d = S" by simp
  show "(S div d) * d < S \<longleftrightarrow> \<not> d dvd S"
  proof (cases "d dvd S")
    case True
    then have "S mod d = 0" by auto
    with e True show ?thesis by simp
  next
    case False
    then have "0 < S mod d" by (simp add: mod_greater_zero_iff_not_dvd)
    with e False show ?thesis by linarith
  qed
  assume "k < S div d"
  then have "Suc k \<le> S div d" by simp
  then have "Suc k * d \<le> S div d * d" by (simp only: mult_le_mono1)
  also have "\<dots> \<le> S" by simp
  finally show "k * d < S" using assms by simp
qed


lemma copy_column_result:
  assumes "0 < d" "foldl (copy_column d src) (0, replicate ts z) [0..<S] = (j, dst')"
  shows "length dst' = ts"
    and "k < ts \<Longrightarrow> dst' ! k = (if k * d < S then src ! (k * d) else z)"
  using copy_column_loop [OF assms(1), of src "replicate ts z" S] assms(2) by auto

lemma trim_loop_columns:
  assumes d: "0 < d"
    and z: "zero_arrays = \<lparr>sol_time = replicate ts 0, sol_dt = replicate ts 0,
              sol_state = replicate ts zs,
              energy = (if ce then replicate ts 0 else [])\<rparr>"
    and tr: "tr = snd (foldl (trim_step d ce sim) (0, zero_arrays) [0..<S])"
  shows "length (sol_time tr) = ts" "length (sol_dt tr) = ts" "length (sol_state tr) = ts"
    and "ce \<Longrightarrow> length (energy tr) = ts"
    and "k < ts \<Longrightarrow> sol_time tr ! k = (if k * d < S then sol_time sim ! (k * d) else 0)"
    and "k < ts \<Longrightarrow> sol_dt tr ! k = (if k * d < S then sol_dt sim ! (k * d) else 0)"
    and "k < ts \<Longrightarrow> sol_state tr ! k = (if k * d < S then sol_state sim ! (k * d) else zs)"
    and "ce \<Longrightarrow> k < ts \<Longrightarrow> energy tr ! k = (if k * d < S then energy sim ! (k * d) else 0)"
proof -
  obtain j where f: "foldl (trim_step d ce sim) (0, zero_arrays) [0..<S] = (j, tr)"
    using tr by (cases "foldl (trim_step d ce sim) (0, zero_arrays) [0..<S]") simp
  note c = trim_step_columns [OF f]
  have t: "foldl (copy_column d (sol_time sim)) (0, replicate ts 0) [0..<S] = (j, sol_time tr)"
    using c z by simp
  have dt: "foldl (copy_column d (sol_dt sim)) (0, replicate ts 0) [0..<S] = (j, sol_dt tr)"
    using c z by simp
  have st: "foldl (copy_column d (sol_state sim)) (0, replicate ts zs) [0..<S]
      = (j, sol_state tr)"
    using c z by simp
  have en: "ce \<Longrightarrow>
      foldl (copy_column d (energy sim)) (0, replicate ts 0) [0..<S] = (j, energy tr)"
    using c z by simp
  show "length (sol_time tr) = ts" by (rule copy_column_result(1) [OF d t])
  show "length (sol_dt tr) = ts" by (rule copy_column_result(1) [OF d dt])
  show "length (sol_state tr) = ts" by (rule copy_column_result(1) [OF d st])
  show "ce \<Longrightarrow> length (energy tr) = ts" by (rule copy_column_result(1) [OF d en])
  show "k < ts \<Longrightarrow> sol_time tr ! k = (if k * d < S then sol_time sim ! (k * d) else 0)"
    by (rule copy_column_result(2) [OF d t])
  show "k < ts \<Longrightarrow> sol_dt tr ! k = (if k * d < S then sol_dt sim ! (k * d) else 0)"
    by (rule copy_column_result(2) [OF d dt])
  show "k < ts \<Longrightarrow> sol_state tr ! k = (if k * d < S then sol_state sim ! (k * d) else zs)"
    by (rule copy_column_result(2) [OF d st])
  show "ce \<Longrightarrow> k < ts \<Longrightarrow> energy tr ! k = (if k * d < S then energy sim ! (k * d) else 0)"
    by (rule copy_column_result(2) [OF d en])
qed

text \<open>The result of \<open>trim_data\<close>, entry by entry.\<close>

lemma trim_data_result:
  fixes S desired N :: nat and ce :: bool and sim :: solution
  assumes "1 < desired" "desired < S"
  defines "d \<equiv> divide_factor S desired"
  defines "tr \<equiv> trim_data S desired N ce sim"
  defines "kept \<equiv> (if d dvd S then 0 else sol_time sim ! (S div d * d))"
  shows "length (sol_time tr) = S div d + 1" "length (sol_dt tr) = S div d + 1"
    "length (sol_state tr) = S div d + 1" "ce \<Longrightarrow> length (energy tr) = S div d + 1"
    and "k < S div d \<Longrightarrow> entry tr ce k = entry sim ce (k * d)"
    and "kept \<noteq> sol_time sim ! (S - 1) \<Longrightarrow> entry tr ce (S div d) = entry sim ce (S - 1)"
    and "kept = sol_time sim ! (S - 1) \<Longrightarrow>
         entry tr ce (S div d) = (if d dvd S then zero_entry N ce else entry sim ce (S div d * d))"
proof -
  have d: "0 < d" using divide_factor_pos [of desired S] assms(1,2) by (simp add: d_def)
  define ts where "ts = S div d + 1"
  define zero_arrays where "zero_arrays = \<lparr>sol_time = replicate ts 0, sol_dt = replicate ts 0,
              sol_state = replicate ts (replicate (N * 3 * 2) 0),
              energy = (if ce then replicate ts (0::real) else [])\<rparr>"
  define lp where "lp = snd (foldl (trim_step d ce sim) (0, zero_arrays) [0..<S])"
  note cols = trim_loop_columns [OF d zero_arrays_def lp_def]
  have L: "S div d < ts" "ts - 1 = S div d" by (simp_all add: ts_def)
  have kept: "sol_time lp ! (S div d) = kept"
    using cols(5) [OF L(1)] last_kept_index(1) [OF d, of S] by (simp add: kept_def)
  have tr: "tr = (if kept \<noteq> sol_time sim ! (S - 1) then
       lp\<lparr>sol_time := (sol_time lp)[S div d := sol_time sim ! (S - 1)],
          sol_dt := (sol_dt lp)[S div d := sol_dt sim ! (S - 1)],
          sol_state := (sol_state lp)[S div d := sol_state sim ! (S - 1)],
          energy := (if ce then (energy lp)[S div d := energy sim ! (S - 1)] else energy lp)\<rparr>
       else lp)"
  proof -
    have "tr = (if sol_time lp ! (ts - 1) \<noteq> sol_time sim ! (S - 1) then
       lp\<lparr>sol_time := (sol_time lp)[ts - 1 := sol_time sim ! (S - 1)],
          sol_dt := (sol_dt lp)[ts - 1 := sol_dt sim ! (S - 1)],
          sol_state := (sol_state lp)[ts - 1 := sol_state sim ! (S - 1)],
          energy := (if ce then (energy lp)[ts - 1 := energy sim ! (S - 1)] else energy lp)\<rparr>
       else lp)"
      unfolding tr_def trim_data_def Let_def trim_size_div d_def [symmetric]
        lp_def zero_arrays_def ts_def
      by (rule refl)
    then show ?thesis using kept L(2) by simp
  qed
  show "length (sol_time tr) = S div d + 1" "length (sol_dt tr) = S div d + 1"
    "length (sol_state tr) = S div d + 1"
    using cols(1-3) by (simp_all add: tr ts_def)
  show "ce \<Longrightarrow> length (energy tr) = S div d + 1"
    using cols(4) by (simp add: tr ts_def)
  show "entry tr ce k = entry sim ce (k * d)" if k: "k < S div d" for k
  proof -
    have "k < ts" "k * d < S" "k \<noteq> S div d"
      using k last_kept_index(2) [OF d k] by (simp_all add: ts_def)
    then show ?thesis
      using cols(5-7) [of k] cols(8) [of k] by (simp add: entry_def tr)
  qed
  show "entry tr ce (S div d) = entry sim ce (S - 1)" if "kept \<noteq> sol_time sim ! (S - 1)"
    using that cols(1-4) L(1) by (simp add: entry_def tr)
  show "entry tr ce (S div d) = (if d dvd S then zero_entry N ce else entry sim ce (S div d * d))"
    if "kept = sol_time sim ! (S - 1)"
    using that cols(5-7) [OF L(1)] cols(8) [OF _ L(1)] last_kept_index(1) [OF d, of S]
    by (simp add: entry_def zero_entry_def tr)
qed

lemma divide_factor_5_2: "divide_factor 5 2 = 3"
proof -
  have "\<lceil>5 / 2 :: real\<rceil> = 3" by (simp add: ceiling_eq_iff)
  then show ?thesis by (simp add: divide_factor_def)
qed

text \<open>
  C8 (counterexample). Five samples trimmed with desired size 2: the divide factor is
  3, the samples 0 and 3 are kept, and since sample 3 carries the time of the terminal
  sample 4 the last entry is not forced: the last trimmed state is the state of sample
  3, not the state of the last original sample.
\<close>

theorem trim_data_last_not_forced:
  "length (sol_state (trim_data 5 2 1 False repeated_time_solution)) = 2
   \<and> sol_state (trim_data 5 2 1 False repeated_time_solution) ! 1 = [3, 3, 3, 3, 3, 3]
   \<and> sol_state repeated_time_solution ! 4 = [4, 4, 4, 4, 4, 4]
   \<and> last (sol_state (trim_data 5 2 1 False repeated_time_solution))
       \<noteq> last (sol_state repeated_time_solution)"
proof -
  let ?tr = "trim_data 5 2 1 False repeated_time_solution"
  have nd: "\<not> (3::nat) dvd 5" by presburger
  have len: "length (sol_state ?tr) = 2"
    using trim_data_result(3) [where desired = 2 and S = 5 and N = 1 and ce = False
        and sim = repeated_time_solution]
    by (simp add: divide_factor_5_2)
  have "entry ?tr False 1 = entry repeated_time_solution False 3"
    using trim_data_result(7) [where desired = 2 and S = 5 and N = 1 and ce = False
        and sim = repeated_time_solution] nd
    by (simp add: divide_factor_5_2 repeated_time_solution_def)
  then have s: "sol_state ?tr ! 1 = [3, 3, 3, 3, 3, 3]"
    by (simp add: entry_def repeated_time_solution_def eval_nat_numeral)
  have o: "sol_state repeated_time_solution ! 4 = [4, 4, 4, 4, 4, 4]"
    by (simp add: repeated_time_solution_def eval_nat_numeral)
  have ne: "sol_state ?tr \<noteq> []" using len by auto
  have "last (sol_state ?tr) = sol_state ?tr ! 1"
    using last_conv_nth [OF ne] len by simp
  moreover have "last (sol_state repeated_time_solution) = [4, 4, 4, 4, 4, 4]"
    by (simp add: repeated_time_solution_def eval_nat_numeral)
  ultimately show ?thesis using len s o by simp
qed

text \<open>
  C8 (amended). For a stored solution of length S trimmed with divide factor
  d = ceil(S / desired_size), where 1 < desired_size < S: the trimmed arrays have length
  floor(S / d) + 1; for every index j before the last, the trimmed entry j (time, step,
  state and, when computed, energy) is the original entry j * d; the last trimmed
  entry is the last original entry whenever the time left in the last slot by the
  copy (the time of the original entry floor(S / d) * d, or 0.0 when d divides S) differs
  from the terminal time, and in particular whenever the times are strictly increasing
  from a non-negative start; when that time equals the terminal time the last entry is
  not forced and stays what the copy left there.
\<close>

theorem trim_data_entries:
  fixes S desired N :: nat and ce :: bool and sim :: solution
  assumes "1 < desired" "desired < S"
    and "length (sol_time sim) = S" "length (sol_dt sim) = S" "length (sol_state sim) = S"
    and "ce \<longrightarrow> length (energy sim) = S"
  shows "let d = divide_factor S desired;
             tr = trim_data S desired N ce sim;
             kept = (if d dvd S then 0 else sol_time sim ! (S div d * d))
         in trim_size S desired = S div d + 1
          \<and> length (sol_time tr) = S div d + 1 \<and> length (sol_dt tr) = S div d + 1
          \<and> length (sol_state tr) = S div d + 1
          \<and> (ce \<longrightarrow> length (energy tr) = S div d + 1)
          \<and> (\<forall>j < S div d. entry tr ce j = entry sim ce (j * d))
          \<and> (kept \<noteq> sol_time sim ! (S - 1) \<longrightarrow>
               entry tr ce (S div d) = entry sim ce (S - 1))
          \<and> (sorted_wrt (<) (sol_time sim) \<and> 0 \<le> sol_time sim ! 0 \<longrightarrow>
               entry tr ce (S div d) = entry sim ce (S - 1))
          \<and> (kept = sol_time sim ! (S - 1) \<longrightarrow>
               entry tr ce (S div d) =
                 (if d dvd S then zero_entry N ce else entry sim ce (S div d * d)))"
proof -
  define d where "d = divide_factor S desired"
  define tr where "tr = trim_data S desired N ce sim"
  define kept where "kept = (if d dvd S then 0 else sol_time sim ! (S div d * d))"
  have r:
    "length (sol_time tr) = S div d + 1" "length (sol_dt tr) = S div d + 1"
    "length (sol_state tr) = S div d + 1" "ce \<Longrightarrow> length (energy tr) = S div d + 1"
    "\<And>k. k < S div d \<Longrightarrow> entry tr ce k = entry sim ce (k * d)"
    "kept \<noteq> sol_time sim ! (S - 1) \<Longrightarrow> entry tr ce (S div d) = entry sim ce (S - 1)"
    "kept = sol_time sim ! (S - 1) \<Longrightarrow>
       entry tr ce (S div d) = (if d dvd S then zero_entry N ce else entry sim ce (S div d * d))"
    unfolding d_def tr_def kept_def
    by (rule trim_data_result [OF assms(1,2)]; assumption?)+
  have d: "0 < d" using divide_factor_pos [of desired S] assms(1,2) by (simp add: d_def)
  have sorted: "entry tr ce (S div d) = entry sim ce (S - 1)"
    if s: "sorted_wrt (<) (sol_time sim)" and z: "0 \<le> sol_time sim ! 0"
  proof (cases "kept = sol_time sim ! (S - 1)")
    case False
    then show ?thesis by (rule r(6))
  next
    case True
    have S: "0 < S - 1" "S - 1 < length (sol_time sim)" using assms(1,2,3) by simp_all
    have pos: "sol_time sim ! 0 < sol_time sim ! (S - 1)"
      using sorted_wrt_nth_less [OF s S(1) S(2)] .
    show ?thesis
    proof (cases "d dvd S")
      case dv: True
      with True pos z show ?thesis by (simp add: kept_def)
    next
      case nd: False
      then have lt: "S div d * d < S" using last_kept_index(1) [OF d] by simp
      have "S div d * d = S - 1"
      proof (rule ccontr)
        assume "S div d * d \<noteq> S - 1"
        with lt have "S div d * d < S - 1" by simp
        from sorted_wrt_nth_less [OF s this S(2)] True nd show False
          by (simp add: kept_def)
      qed
      with r(7) [OF True] nd show ?thesis by simp
    qed
  qed
  have "trim_size S desired = S div d + 1" by (simp add: trim_size_div d_def)
  with r sorted show ?thesis
    unfolding Let_def d_def [symmetric] tr_def [symmetric] kept_def [symmetric]
    by blast
qed

theorem trim_data_entries_witness:
  "(1::nat) < 2 \<and> (2::nat) < 5
   \<and> length (sol_time five_sample_solution) = 5
   \<and> length (sol_dt five_sample_solution) = 5
   \<and> length (sol_state five_sample_solution) = 5
   \<and> sorted_wrt (<) (sol_time five_sample_solution)
   \<and> divide_factor 5 2 = 3
   \<and> length (sol_time (trim_data 5 2 1 False five_sample_solution)) = 2
   \<and> entry (trim_data 5 2 1 False five_sample_solution) False 0
       = entry five_sample_solution False 0
   \<and> entry (trim_data 5 2 1 False five_sample_solution) False 1
       = entry five_sample_solution False 4"
proof -
  have h: "length (sol_time five_sample_solution) = 5"
    "length (sol_dt five_sample_solution) = 5"
    "length (sol_state five_sample_solution) = 5"
    "False \<longrightarrow> length (energy five_sample_solution) = 5"
    "sorted_wrt (<) (sol_time five_sample_solution)"
    "0 \<le> sol_time five_sample_solution ! 0"
    by (simp_all add: five_sample_solution_def)
  have n: "(1::nat) < 2" "(2::nat) < 5" by simp_all
  from trim_data_entries [OF n h(1-4), where N = 1] h show ?thesis
    by (simp add: Let_def divide_factor_5_2)
qed

subsection \<open>The embedded Runge-Kutta integrator: what an execution writes\<close>

lemma framed_new_array:
  "framed n W c0 mem \<Longrightarrow> framed n W c0 (snd (new_array c mem))"
  "framed n W c0 mem \<Longrightarrow> n \<le> fst (new_array c mem)"
  by (auto simp: framed_def new_array_def)

lemma framed_update_array:
  "framed n W c0 mem \<Longrightarrow> a \<in> W \<or> n \<le> a \<Longrightarrow> framed n W c0 (update_array a c mem)"
  by (auto simp: framed_def update_array_def)

lemma framed_update_stage:
  "framed n W c0 mem \<Longrightarrow> a \<in> W \<or> n \<le> a \<Longrightarrow> framed n W c0 (update_stage a w j c mem)"
  by (simp add: update_stage_def framed_update_array)

lemma framed_foldl:
  "(\<And>mem j. framed n W c0 mem \<Longrightarrow> framed n W c0 (f mem j)) \<Longrightarrow>
   framed n W c0 mem \<Longrightarrow> framed n W c0 (foldl f mem js)"
  by (induction js arbitrary: mem) simp_all

lemma framed_add_stage_terms:
  "framed n W c0 mem \<Longrightarrow> n \<le> temp_v \<Longrightarrow> n \<le> temp_x \<Longrightarrow>
   framed n W c0 (add_stage_terms coeff w vk xk temp_v temp_x stage mem j)"
  by (simp add: add_stage_terms_def Let_def framed_update_array)

lemma framed_compute_stage:
  "framed n W c0 mem \<Longrightarrow> vk \<in> W \<or> n \<le> vk \<Longrightarrow> xk \<in> W \<or> n \<le> xk \<Longrightarrow>
   framed n W c0 (compute_stage acc N x v m G dt coeff vk xk mem stage)"
  unfolding compute_stage_def Let_def split_def
  by (intro framed_update_stage framed_foldl framed_add_stage_terms framed_new_array)

lemma framed_calculate_xk_vk:
  "framed n W c0 mem \<Longrightarrow> vk \<in> W \<or> n \<le> vk \<Longrightarrow> xk \<in> W \<or> n \<le> xk \<Longrightarrow>
   framed n W c0 (calculate_xk_vk acc N x v m G dt coeff stages vk xk mem)"
  unfolding calculate_xk_vk_def Let_def
  by (intro framed_foldl framed_compute_stage framed_update_stage)

lemma framed_add_weighted_stage:
  "framed n W c0 mem \<Longrightarrow> n \<le> temp_v \<Longrightarrow> n \<le> temp_x \<Longrightarrow> n \<le> edv \<Longrightarrow> n \<le> edx \<Longrightarrow>
   framed n W c0 (add_weighted_stage weights dw w vk xk temp_v temp_x edv edx mem stage)"
  by (simp add: add_weighted_stage_def Let_def framed_update_array)


lemma framed_calculate_x_1_v_1:
  "framed n W c0 mem \<Longrightarrow>
   framed n W c0 (snd (calculate_x_1_v_1 N x v dt weights dw stages vk xk mem))"
  unfolding calculate_x_1_v_1_def Let_def split_def snd_conv
  by (intro framed_update_array framed_foldl framed_add_weighted_stage framed_new_array disjI2)

lemma framed_error_calculation:
  "framed n W c0 mem \<Longrightarrow>
   framed n W c0 (snd (error_calculation N x v x_1 v_1 edx edv abs_tol rel_tol mem))"
  unfolding error_calculation_def Let_def split_def snd_conv
  by (intro framed_new_array)

lemma framed_rk_attempt:
  "framed n W c0 mem \<Longrightarrow> vk \<in> W \<or> n \<le> vk \<Longrightarrow> xk \<in> W \<or> n \<le> xk \<Longrightarrow>
   framed n W c0
     (snd (rk_attempt acc N x v m G dt coeff weights dw stages vk xk abs_tol rel_tol mem))"
  unfolding rk_attempt_def Let_def split_def snd_conv
  by (intro framed_error_calculation framed_calculate_x_1_v_1 framed_calculate_xk_vk)

lemma framed_rk_iteration:
  "framed n W c0 mem \<Longrightarrow> p_vk p \<in> W \<or> n \<le> p_vk p \<Longrightarrow> p_xk p \<in> W \<or> n \<le> p_xk p \<Longrightarrow>
   framed n W c0 (snd (rk_iteration acc p l mem))"
  unfolding rk_iteration_def attempt_of_def Let_def split_def snd_conv
  by (intro framed_rk_attempt)

lemma framed_rk_loop:
  "framed n W c0 mem \<Longrightarrow> p_vk p \<in> W \<or> n \<le> p_vk p \<Longrightarrow> p_xk p \<in> W \<or> n \<le> p_xk p \<Longrightarrow>
   framed n W c0 (snd (rk_loop acc p is l mem))"
proof (induction "is" arbitrary: l mem)
  case Nil
  then show ?case by simp
next
  case (Cons i "is")
  obtain l1 mem1 where it: "rk_iteration acc p l mem = (l1, mem1)"
    by (cases "rk_iteration acc p l mem")
  have "framed n W c0 mem1"
    using framed_rk_iteration [OF Cons.prems, of acc l] it by simp
  from Cons.IH [OF this Cons.prems(2,3)] it Cons.prems \<open>framed n W c0 mem1\<close>
  show ?case by simp
qed

lemma framed_rk_embedded:
  "framed n {} c0 mem \<Longrightarrow>
   framed n {} c0
     (snd (rk_embedded acc N x v m G ets sim_time dt pw pw_test coeff weights weights_test
             max_it min_it abs_tol rel_tol mem))"
  unfolding rk_embedded_def Let_def split_def snd_conv
  by (intro framed_rk_loop framed_new_array disjI2) (auto intro!: framed_new_array)

subsection \<open>Acceptance of a step\<close>

lemma framed_self: "framed (next_addr mem) W (cells mem) mem"
  by (simp add: framed_def)

lemma rk_iteration_unchanged_cells:
  assumes "rk_iteration acc p l mem = (l', mem')"
    and "a < next_addr mem" "a \<noteq> p_vk p" "a \<noteq> p_xk p"
  shows "cells mem' a = cells mem a"
proof -
  have "framed (next_addr mem) {p_vk p, p_xk p} (cells mem) (snd (rk_iteration acc p l mem))"
    by (intro framed_rk_iteration framed_self) simp_all
  with assms show ?thesis by (simp add: framed_def)
qed

text \<open>
  C1. In an iteration of the loop of \<open>rk_embedded\<close> whose attempt yields \<open>x_1\<close>, \<open>v_1\<close> and
  \<open>error\<close>: if \<open>error \<le> 1\<close> or the step \<open>actual_dt\<close> equals
  \<open>expected_time_scale * 1e-12\<close>, then \<open>t\<close> becomes \<open>t + actual_dt\<close>, \<open>x\<close> becomes \<open>x_1\<close> and
  \<open>v\<close> becomes \<open>v_1\<close>; otherwise \<open>t\<close>, \<open>x\<close> and \<open>v\<close> are what they were. The attempt
  writes into the stage arrays and into arrays it allocates only, so the arrays that \<open>x\<close>
  and \<open>v\<close> named before the attempt keep their contents, and the loop goes on (or
  returns) with these values.
\<close>

theorem rk_iteration_accept_iff:
  assumes att: "attempt_of acc p l mem = ((x_1, v_1, error), mem1)"
    and it: "rk_iteration acc p l mem = (l', mem')"
  shows "(error \<le> 1 \<or> loc_actual_dt l = p_expected_time_scale p * (1 / 10 ^ 12) \<longrightarrow>
           loc_t l' = loc_t l + loc_actual_dt l \<and> loc_x l' = x_1 \<and> loc_v l' = v_1)
       \<and> (\<not> (error \<le> 1 \<or> loc_actual_dt l = p_expected_time_scale p * (1 / 10 ^ 12)) \<longrightarrow>
           loc_t l' = loc_t l \<and> loc_x l' = loc_x l \<and> loc_v l' = loc_v l)
       \<and> (\<forall>a < next_addr mem. a \<noteq> p_vk p \<and> a \<noteq> p_xk p \<longrightarrow> cells mem' a = cells mem a)
       \<and> mem' = mem1
       \<and> rk_loop acc p (i # is) l mem =
           (if i \<ge> p_min_iteration p
               \<and> loc_t l' > p_simulation_time p + p_expected_time_scale p * (1 / 10 ^ 5)
            then (l', mem') else rk_loop acc p is l' mem')"
proof -
  from att it have l': "l' = (if error \<le> 1 \<or> loc_actual_dt l = p_expected_time_scale p * (1 / 10 ^ 12)
        then l\<lparr>loc_t := loc_t l + loc_actual_dt l, loc_x := x_1, loc_v := v_1\<rparr> else l)
        \<lparr>loc_actual_dt :=
           next_actual_dt error (loc_actual_dt l) (p_min_power p) (p_expected_time_scale p)\<rparr>"
    and m: "mem' = mem1"
    by (simp_all add: rk_iteration_def)
  have c: "\<forall>a < next_addr mem. a \<noteq> p_vk p \<and> a \<noteq> p_xk p \<longrightarrow> cells mem' a = cells mem a"
    using rk_iteration_unchanged_cells [OF it] by blast
  have loop: "rk_loop acc p (i # is) l mem =
           (if i \<ge> p_min_iteration p
               \<and> loc_t l' > p_simulation_time p + p_expected_time_scale p * (1 / 10 ^ 5)
            then (l', mem') else rk_loop acc p is l' mem')"
    using it by simp
  from l' m c loop show ?thesis by simp
qed

lemma one_body_loop_memory_cells:
  "next_addr one_body_loop_memory = 5"
  "cells one_body_loop_memory 0 = [0, 0, 0]"
  "cells one_body_loop_memory 1 = [1, 0, 0]"
  "cells one_body_loop_memory 2 = [1]"
  by (simp_all add: one_body_loop_memory_def one_body_memory_def new_array_def)


theorem rk_iteration_accept_iff_witness:
  "loc_x one_body_locals < next_addr one_body_loop_memory
   \<and> loc_x one_body_locals \<noteq> p_vk one_body_params
   \<and> loc_x one_body_locals \<noteq> p_xk one_body_params
   \<and> loc_v one_body_locals < next_addr one_body_loop_memory
   \<and> loc_v one_body_locals \<noteq> p_vk one_body_params
   \<and> loc_v one_body_locals \<noteq> p_xk one_body_params
   \<and> cells (snd (rk_iteration one_body_acceleration one_body_params one_body_locals
                   one_body_loop_memory)) 0 = [0, 0, 0]
   \<and> cells (snd (rk_iteration one_body_acceleration one_body_params one_body_locals
                   one_body_loop_memory)) 1 = [1, 0, 0]
   \<and> snd (rk_iteration one_body_acceleration one_body_params one_body_locals
            one_body_loop_memory)
       = snd (attempt_of one_body_acceleration one_body_params one_body_locals
                one_body_loop_memory)
   \<and> (loc_t (fst (rk_iteration one_body_acceleration one_body_params one_body_locals
                    one_body_loop_memory)) = 0 + 1 / 10 ^ 3
        \<and> loc_x (fst (rk_iteration one_body_acceleration one_body_params one_body_locals
                    one_body_loop_memory))
            = fst (fst (attempt_of one_body_acceleration one_body_params one_body_locals
                          one_body_loop_memory))
      \<or> loc_t (fst (rk_iteration one_body_acceleration one_body_params one_body_locals
                    one_body_loop_memory)) = 0
        \<and> loc_x (fst (rk_iteration one_body_acceleration one_body_params one_body_locals
                    one_body_loop_memory)) = 0)"
proof -
  obtain x_1 v_1 error mem1 where
    a: "attempt_of one_body_acceleration one_body_params one_body_locals one_body_loop_memory
        = ((x_1, v_1, error), mem1)"
    by (metis prod.exhaust)
  obtain l' mem' where
    i: "rk_iteration one_body_acceleration one_body_params one_body_locals one_body_loop_memory
        = (l', mem')"
    by (metis prod.exhaust)
  have h: "loc_x one_body_locals < next_addr one_body_loop_memory"
    "loc_x one_body_locals \<noteq> p_vk one_body_params"
    "loc_x one_body_locals \<noteq> p_xk one_body_params"
    "loc_v one_body_locals < next_addr one_body_loop_memory"
    "loc_v one_body_locals \<noteq> p_vk one_body_params"
    "loc_v one_body_locals \<noteq> p_xk one_body_params"
    by (simp_all add: one_body_locals_def one_body_params_def one_body_loop_memory_cells)
  have v: "loc_x one_body_locals = 0" "loc_v one_body_locals = 1" "loc_t one_body_locals = 0"
    "loc_actual_dt one_body_locals = 1 / 10 ^ 3"
    by (simp_all add: one_body_locals_def)
  have n: "(0::nat) < next_addr one_body_loop_memory" "(1::nat) < next_addr one_body_loop_memory"
    "(0::nat) \<noteq> p_vk one_body_params \<and> (0::nat) \<noteq> p_xk one_body_params"
    "(1::nat) \<noteq> p_vk one_body_params \<and> (1::nat) \<noteq> p_xk one_body_params"
    by (simp_all add: one_body_params_def one_body_loop_memory_cells)
  note t = rk_iteration_accept_iff [OF a i, of 0 "[]"]
  from t have c: "\<forall>a < next_addr one_body_loop_memory.
      a \<noteq> p_vk one_body_params \<and> a \<noteq> p_xk one_body_params \<longrightarrow>
      cells mem' a = cells one_body_loop_memory a"
    by (elim conjE)
  have c0: "cells mem' 0 = [0, 0, 0]"
    using c [rule_format, OF n(1) n(3)] by (simp only: one_body_loop_memory_cells)
  have c1: "cells mem' 1 = [1, 0, 0]"
    using c [rule_format, OF n(2) n(4)] by (simp only: one_body_loop_memory_cells)
  from t have m: "mem' = mem1" by (elim conjE)
  have d: "loc_t l' = 0 + 1 / 10 ^ 3 \<and> loc_x l' = x_1 \<or> loc_t l' = 0 \<and> loc_x l' = 0"
  proof (cases "error \<le> 1 \<or> loc_actual_dt one_body_locals
      = p_expected_time_scale one_body_params * (1 / 10 ^ 12)")
    case True
    with t have "loc_t l' = loc_t one_body_locals + loc_actual_dt one_body_locals
      \<and> loc_x l' = x_1 \<and> loc_v l' = v_1"
      by (elim conjE) (erule (1) mp)
    then show ?thesis by (simp add: v)
  next
    case False
    with t have "loc_t l' = loc_t one_body_locals \<and> loc_x l' = loc_x one_body_locals
      \<and> loc_v l' = loc_v one_body_locals"
      by (elim conjE) (erule (1) mp)
    then show ?thesis by (simp add: v)
  qed
  from h c0 c1 m d show ?thesis
    unfolding a i fst_conv snd_conv by (intro conjI)
qed

subsection \<open>The arrays of the caller\<close>

lemma calculate_x_1_v_1_fresh_x:
  "framed n W c0 mem \<Longrightarrow>
   n \<le> fst (fst (calculate_x_1_v_1 N x v dt weights dw stages vk xk mem))"
  unfolding calculate_x_1_v_1_def Let_def split_def fst_conv snd_conv
  by (intro framed_update_array framed_foldl framed_add_weighted_stage framed_new_array disjI2)

lemma calculate_x_1_v_1_fresh_v:
  "framed n W c0 mem \<Longrightarrow>
   n \<le> fst (snd (fst (calculate_x_1_v_1 N x v dt weights dw stages vk xk mem)))"
  unfolding calculate_x_1_v_1_def Let_def split_def fst_conv snd_conv
  by (intro framed_update_array framed_foldl framed_add_weighted_stage framed_new_array disjI2)

lemma rk_attempt_fresh:
  assumes "framed n W c0 mem" "vk \<in> W \<or> n \<le> vk" "xk \<in> W \<or> n \<le> xk"
  shows "n \<le> fst (fst (rk_attempt acc N x v m G dt coeff weights dw stages vk xk
                          abs_tol rel_tol mem))"
    and "n \<le> fst (snd (fst (rk_attempt acc N x v m G dt coeff weights dw stages vk xk
                          abs_tol rel_tol mem)))"
proof -
  have f: "framed n W c0 (calculate_xk_vk acc N x v m G dt coeff stages vk xk mem)"
    using assms by (rule framed_calculate_xk_vk)
  show "n \<le> fst (fst (rk_attempt acc N x v m G dt coeff weights dw stages vk xk
                          abs_tol rel_tol mem))"
    unfolding rk_attempt_def Let_def split_def fst_conv snd_conv
    by (rule calculate_x_1_v_1_fresh_x [OF f])
  show "n \<le> fst (snd (fst (rk_attempt acc N x v m G dt coeff weights dw stages vk xk
                          abs_tol rel_tol mem)))"
    unfolding rk_attempt_def Let_def split_def fst_conv snd_conv
    by (rule calculate_x_1_v_1_fresh_v [OF f])
qed

lemma rk_iteration_locals:
  assumes "framed n W c0 mem" "p_vk p \<in> W \<or> n \<le> p_vk p" "p_xk p \<in> W \<or> n \<le> p_xk p"
    and "loc_x l = x \<or> n \<le> loc_x l" "loc_v l = v \<or> n \<le> loc_v l"
  shows "loc_x (fst (rk_iteration acc p l mem)) = x \<or> n \<le> loc_x (fst (rk_iteration acc p l mem))"
    and "loc_v (fst (rk_iteration acc p l mem)) = v \<or> n \<le> loc_v (fst (rk_iteration acc p l mem))"
  using assms(4,5) rk_attempt_fresh [OF assms(1-3)]
  by (auto simp: rk_iteration_def attempt_of_def Let_def split_def)

lemma rk_loop_locals:
  assumes "framed n W c0 mem" "p_vk p \<in> W \<or> n \<le> p_vk p" "p_xk p \<in> W \<or> n \<le> p_xk p"
    and "loc_x l = x \<or> n \<le> loc_x l" "loc_v l = v \<or> n \<le> loc_v l"
  shows "(loc_x (fst (rk_loop acc p is l mem)) = x \<or> n \<le> loc_x (fst (rk_loop acc p is l mem)))
       \<and> (loc_v (fst (rk_loop acc p is l mem)) = v \<or> n \<le> loc_v (fst (rk_loop acc p is l mem)))"
  using assms
proof (induction "is" arbitrary: l mem)
  case Nil
  then show ?case by simp
next
  case (Cons i "is")
  obtain l1 mem1 where it: "rk_iteration acc p l mem = (l1, mem1)"
    by (cases "rk_iteration acc p l mem")
  have f: "framed n W c0 mem1"
    using framed_rk_iteration [OF Cons.prems(1-3), of acc l] it by simp
  have lx: "loc_x l1 = x \<or> n \<le> loc_x l1" and lv: "loc_v l1 = v \<or> n \<le> loc_v l1"
    using rk_iteration_locals [OF Cons.prems, of acc] it by simp_all
  from Cons.IH [OF f Cons.prems(2,3) lx lv] it lx lv show ?case by simp
qed

text \<open>
  C9. \<open>rk_embedded\<close> writes to no array that exists when it is called: on return every
  cell allocated before the call, the caller's \<open>x\<close>, \<open>v\<close> and \<open>m\<close> among them, has the
  contents it had at the call. The arrays of the returned tuple are the caller's own
  \<open>x\<close> and \<open>v\<close> (when no step was accepted) or arrays allocated during the call.
\<close>

theorem rk_embedded_frame:
  assumes "rk_embedded acc objects_count x v m G expected_time_scale simulation_time
             actual_dt power' power_test coeff weights weights_test max_iteration
             min_iteration abs_tolerance rel_tolerance mem = ((x', v', t', actual_dt'), mem')"
    and "x < next_addr mem" "v < next_addr mem" "m < next_addr mem"
  shows "cells mem' x = cells mem x \<and> cells mem' v = cells mem v \<and> cells mem' m = cells mem m
       \<and> (\<forall>a < next_addr mem. cells mem' a = cells mem a)
       \<and> next_addr mem \<le> next_addr mem'
       \<and> (x' = x \<or> next_addr mem \<le> x') \<and> (v' = v \<or> next_addr mem \<le> v')"
proof -
  let ?n = "next_addr mem"
  have "framed ?n {} (cells mem)
     (snd (rk_embedded acc objects_count x v m G expected_time_scale simulation_time
             actual_dt power' power_test coeff weights weights_test max_iteration
             min_iteration abs_tolerance rel_tolerance mem))"
    by (intro framed_rk_embedded framed_self)
  with assms(1) have fr: "framed ?n {} (cells mem) mem'" by simp
  then have all: "\<forall>a < ?n. cells mem' a = cells mem a" and le: "?n \<le> next_addr mem'"
    by (simp_all add: framed_def)
  have "(x' = x \<or> ?n \<le> x') \<and> (v' = v \<or> ?n \<le> v')"
  proof -
    let ?w = "zeros (length weights * objects_count * 3)"
    let ?m2 = "snd (new_array ?w (snd (new_array ?w mem)))"
    define p where "p = \<lparr>p_objects_count = objects_count, p_m = m, p_G = G,
               p_expected_time_scale = expected_time_scale,
               p_simulation_time = simulation_time, p_min_power = min power' power_test,
               p_coeff = coeff, p_weights = weights,
               p_error_estimation_delta_weights = arr_sub weights weights_test,
               p_stages = length weights, p_vk = fst (new_array ?w mem),
               p_xk = fst (new_array ?w (snd (new_array ?w mem))),
               p_min_iteration = min_iteration,
               p_abs_tolerance = abs_tolerance, p_rel_tolerance = rel_tolerance\<rparr>"
    define l0 where "l0 = \<lparr>loc_x = x, loc_v = v, loc_t = simulation_time,
               loc_actual_dt = actual_dt\<rparr>"
    define R where "R = rk_loop acc p [0..<max_iteration] l0 ?m2"
    have "rk_embedded acc objects_count x v m G expected_time_scale simulation_time
             actual_dt power' power_test coeff weights weights_test max_iteration
             min_iteration abs_tolerance rel_tolerance mem
          = ((loc_x (fst R), loc_v (fst R), loc_t (fst R), loc_actual_dt (fst R)), snd R)"
      unfolding rk_embedded_def Let_def split_def R_def p_def l0_def by (rule refl)
    with assms(1) have r: "x' = loc_x (fst R)" "v' = loc_v (fst R)" by simp_all
    have f2: "framed ?n {} (cells mem) ?m2"
      by (intro framed_new_array framed_self)
    have vk: "p_vk p \<in> {} \<or> ?n \<le> p_vk p"
      by (simp add: p_def new_array_def)
    have xk: "p_xk p \<in> {} \<or> ?n \<le> p_xk p"
      by (simp add: p_def new_array_def)
    have "loc_x l0 = x \<or> ?n \<le> loc_x l0" "loc_v l0 = v \<or> ?n \<le> loc_v l0"
      by (simp_all add: l0_def)
    from rk_loop_locals [OF f2 vk xk this] r show ?thesis by (simp add: R_def)
  qed
  with all le assms(2-4) show ?thesis by simp
qed

theorem rk_embedded_frame_witness:
  "(0::nat) < next_addr one_body_memory \<and> (1::nat) < next_addr one_body_memory
   \<and> (2::nat) < next_addr one_body_memory
   \<and> cells (snd (rk_embedded one_body_acceleration 1 0 1 2 1 1 0 (1 / 10 ^ 3) 4 5
                   rkf45_coeff rkf45_weights rkf45_weights_test 10 1 (1 / 10 ^ 9) (1 / 10 ^ 9)
                   one_body_memory)) 0 = [0, 0, 0]
   \<and> cells (snd (rk_embedded one_body_acceleration 1 0 1 2 1 1 0 (1 / 10 ^ 3) 4 5
                   rkf45_coeff rkf45_weights rkf45_weights_test 10 1 (1 / 10 ^ 9) (1 / 10 ^ 9)
                   one_body_memory)) 1 = [1, 0, 0]
   \<and> cells (snd (rk_embedded one_body_acceleration 1 0 1 2 1 1 0 (1 / 10 ^ 3) 4 5
                   rkf45_coeff rkf45_weights rkf45_weights_test 10 1 (1 / 10 ^ 9) (1 / 10 ^ 9)
                   one_body_memory)) 2 = [1]"
proof -
  obtain x' v' t' dt' mem' where
    r: "rk_embedded one_body_acceleration 1 0 1 2 1 1 0 (1 / 10 ^ 3) 4 5
          rkf45_coeff rkf45_weights rkf45_weights_test 10 1 (1 / 10 ^ 9) (1 / 10 ^ 9)
          one_body_memory = ((x', v', t', dt'), mem')"
    by (metis prod.exhaust)
  have h: "(0::nat) < next_addr one_body_memory" "(1::nat) < next_addr one_body_memory"
    "(2::nat) < next_addr one_body_memory"
    by (simp_all add: one_body_memory_def)
  have c: "cells one_body_memory 0 = [0, 0, 0]" "cells one_body_memory 1 = [1, 0, 0]"
    "cells one_body_memory 2 = [1]"
    by (simp_all add: one_body_memory_def)
  from rk_embedded_frame [OF r h] h show ?thesis
    unfolding r snd_conv c by blast
qed


subsection \<open>The step size for the next attempt\<close>

lemma powr_1024: "(1024::real) powr (1 / 5) = 4"
proof -
  have "(1024::real) = 4 powr 5" by simp
  then have "(1024::real) powr (1 / 5) = (4 powr 5) powr (1 / 5)" by simp
  also have "\<dots> = 4 powr (5 * (1 / 5))" by (rule powr_powr)
  finally show ?thesis by simp
qed

lemma safety_fac_4: "0 < safety_fac 4" "safety_fac 4 < 1"
proof -
  show "0 < safety_fac 4" by (simp add: safety_fac_def)
  have "(0.38::real) powr (1 / 5) < 1 powr (1 / 5)"
    by (rule powr_less_mono2) simp_all
  then show "safety_fac 4 < 1" by (simp add: safety_fac_def)
qed

lemma proposed_dt_1024: "proposed_dt 1024 h 4 = h * safety_fac 4 / 4"
  using powr_1024 by (simp add: proposed_dt_def)

lemma bounded_dt_1024: "0 < h \<Longrightarrow> bounded_dt (proposed_dt 1024 h 4) h = 0.33 * h"
proof -
  assume h: "0 < h"
  have "h * safety_fac 4 < h * 1" using safety_fac_4(2) h by (simp only: mult_less_cancel_left_pos)
  then have "h * safety_fac 4 / 4 < 0.33 * h" "\<not> h * safety_fac 4 / 4 > 6 * h"
    using h by simp_all
  then show ?thesis
    by (simp add: bounded_dt_def proposed_dt_1024 safety_fac_max_def safety_fac_min_def)
qed

lemma next_actual_dt_1024: "next_actual_dt 1024 (4 / 10 ^ 12) 4 1 = 1 / 10 ^ 12"
proof -
  have "proposed_dt 1024 (4 / 10 ^ 12) 4 / 1 < 1 / 10 ^ 12"
    using safety_fac_4(2) by (simp add: proposed_dt_1024)
  then show ?thesis
    unfolding next_actual_dt_def Let_def by simp
qed

text \<open>
  C2 (counterexample). With the tableau of order 45 (\<open>power = 4\<close>, \<open>power_test = 5\<close>),
  \<open>expected_time_scale = 1\<close>, a step \<open>actual_dt = 4e-12\<close> and \<open>error = 1024\<close>: the
  proposal is below \<open>1e-12\<close>, the bounded step is \<open>0.33 * 4e-12 = 1.32e-12\<close>, and the
  step for the next attempt is \<open>1e-12\<close>. It is not the maximum of the bounded step and
  \<open>expected_time_scale * 1e-12\<close>: the last statement has reduced the bounded step.
\<close>

theorem floor_reduces_bounded_step:
  "next_actual_dt 1024 (4 / 10 ^ 12) (min 4 5) 1 = 1 / 10 ^ 12
   \<and> bounded_dt (proposed_dt 1024 (4 / 10 ^ 12) (min 4 5)) (4 / 10 ^ 12) = 1.32 / 10 ^ 12
   \<and> next_actual_dt 1024 (4 / 10 ^ 12) (min 4 5) 1
       \<noteq> max (bounded_dt (proposed_dt 1024 (4 / 10 ^ 12) (min 4 5)) (4 / 10 ^ 12))
             (1 * (1 / 10 ^ 12))"
proof -
  have m: "min (4::int) 5 = 4" by simp
  have b: "bounded_dt (proposed_dt 1024 (4 / 10 ^ 12) 4) (4 / 10 ^ 12) = 1.32 / 10 ^ 12"
    using bounded_dt_1024 [of "4 / 10 ^ 12"] by simp
  show ?thesis unfolding m next_actual_dt_1024 b by simp
qed

lemma proposed_dt_formula:
  "error \<noteq> 0 \<Longrightarrow>
   proposed_dt error h pm = h * safety_fac pm * error powr (- 1 / (1 + real_of_int pm))"
  by (simp add: proposed_dt_def powr_minus divide_inverse)

lemma bounded_dt_clamp:
  "bounded_dt d h = (if d > 6.0 * h then 6.0 * h else if d < 0.33 * h then 0.33 * h else d)"
  by (simp add: bounded_dt_def safety_fac_max_def safety_fac_min_def)

lemma bounded_dt_range:
  "0 < h \<Longrightarrow> 0.33 * h \<le> bounded_dt d h \<and> bounded_dt d h \<le> 6.0 * h"
  by (simp add: bounded_dt_clamp)

lemma next_actual_dt_cases:
  "next_actual_dt error h pm ets =
     (if proposed_dt error h pm / ets < 1 / 10 ^ 12 then ets * (1 / 10 ^ 12)
      else bounded_dt (proposed_dt error h pm) h)"
  by (simp add: next_actual_dt_def Let_def)

lemma floor_test:
  fixes d ets :: real
  assumes "0 < ets"
  shows "d / ets < 1 / 10 ^ 12 \<longleftrightarrow> d < ets * (1 / 10 ^ 12)"
proof -
  have "d / ets < 1 / 10 ^ 12 \<longleftrightarrow> d < 1 / 10 ^ 12 * ets"
    using assms by (rule pos_divide_less_eq)
  also have "1 / 10 ^ 12 * ets = ets * (1 / 10 ^ 12)" by (rule mult.commute)
  finally show ?thesis .
qed

lemma next_actual_dt_floor:
  assumes "0 < ets"
  shows "next_actual_dt error h pm ets =
     (if proposed_dt error h pm < ets * (1 / 10 ^ 12) then ets * (1 / 10 ^ 12)
      else bounded_dt (proposed_dt error h pm) h)"
  unfolding next_actual_dt_cases floor_test [OF assms] by (rule refl)

lemma clamp_then_floor_max:
  fixes d f h :: real
  assumes "0 < h"
  shows "(if d < f then f
          else if d > 6.0 * h then 6.0 * h else if d < 0.33 * h then 0.33 * h else d)
       = max (if d > 6.0 * h then 6.0 * h else if d < 0.33 * h then 0.33 * h else d) f
     \<longleftrightarrow> \<not> (d < f \<and> f < 0.33 * h) \<and> \<not> (6.0 * h < f \<and> f \<le> d)"
  using assms by (auto simp: max_def)

lemma next_actual_dt_max_iff:
  assumes "0 < h" "0 < ets"
  shows "next_actual_dt error h pm ets
           = max (bounded_dt (proposed_dt error h pm) h) (ets * (1 / 10 ^ 12))
     \<longleftrightarrow> \<not> (proposed_dt error h pm < ets * (1 / 10 ^ 12) \<and> ets * (1 / 10 ^ 12) < 0.33 * h)
       \<and> \<not> (6.0 * h < ets * (1 / 10 ^ 12) \<and> ets * (1 / 10 ^ 12) \<le> proposed_dt error h pm)"
  unfolding next_actual_dt_floor [OF assms(2)] bounded_dt_clamp
  by (rule clamp_then_floor_max [OF assms(1)])

lemma clamp_then_floor_ge:
  fixes d f h :: real
  assumes "0 < f" "f \<le> h"
  shows "f \<le> (if d < f then f
                else if d > 6.0 * h then 6.0 * h else if d < 0.33 * h then 0.33 * h else d)"
    and "\<not> (6.0 * h < f \<and> f \<le> d)"
  using assms by auto

lemma next_actual_dt_ge_floor:
  assumes "0 < ets" "ets * (1 / 10 ^ 12) \<le> h"
  shows "ets * (1 / 10 ^ 12) \<le> next_actual_dt error h pm ets"
proof -
  have "0 < ets * (1 / 10 ^ 12)" using assms(1) by simp
  from clamp_then_floor_ge(1) [OF this assms(2)] show ?thesis
    unfolding next_actual_dt_floor [OF assms(1)] bounded_dt_clamp .
qed

lemma next_actual_dt_max_iff_above_floor:
  assumes "0 < ets" "ets * (1 / 10 ^ 12) \<le> h"
  shows "next_actual_dt error h pm ets
           = max (bounded_dt (proposed_dt error h pm) h) (ets * (1 / 10 ^ 12))
     \<longleftrightarrow> \<not> (proposed_dt error h pm < ets * (1 / 10 ^ 12) \<and> ets * (1 / 10 ^ 12) < 0.33 * h)"
proof -
  have f: "0 < ets * (1 / 10 ^ 12)" using assms(1) by simp
  with assms(2) have h: "0 < h" by linarith
  from clamp_then_floor_ge(2) [OF f assms(2)] next_actual_dt_max_iff [OF h assms(1)]
  show ?thesis by blast
qed

lemma floor_replaces_clamped:
  assumes "0 < ets" "proposed_dt error h pm < ets * (1 / 10 ^ 12)"
    and "ets * (1 / 10 ^ 12) < 0.33 * h"
  shows "next_actual_dt error h pm ets = ets * (1 / 10 ^ 12)"
    and "bounded_dt (proposed_dt error h pm) h = 0.33 * h"
    and "next_actual_dt error h pm ets < bounded_dt (proposed_dt error h pm) h"
proof -
  have f: "0 < ets * (1 / 10 ^ 12)" using assms(1) by simp
  show n: "next_actual_dt error h pm ets = ets * (1 / 10 ^ 12)"
    unfolding next_actual_dt_floor [OF assms(1)] using assms(2) by simp
  have "0 < h" using f assms(3) by simp
  then show b: "bounded_dt (proposed_dt error h pm) h = 0.33 * h"
    unfolding bounded_dt_clamp using assms(2,3) by simp
  show "next_actual_dt error h pm ets < bounded_dt (proposed_dt error h pm) h"
    unfolding n b by (rule assms(3))
qed

lemma rk_iteration_actual_dt:
  assumes "attempt_of acc p l mem = ((x_1, v_1, err), mem1)"
  shows "loc_actual_dt (fst (rk_iteration acc p l mem))
       = next_actual_dt err (loc_actual_dt l) (p_min_power p) (p_expected_time_scale p)"
  using assms by (simp add: rk_iteration_def Let_def)

lemma rk_iteration_dt_floor:
  assumes "0 < p_expected_time_scale p"
    and "p_expected_time_scale p * (1 / 10 ^ 12) \<le> loc_actual_dt l"
  shows "p_expected_time_scale p * (1 / 10 ^ 12)
       \<le> loc_actual_dt (fst (rk_iteration acc p l mem))"
proof -
  obtain x_1 v_1 err mem1 where a: "attempt_of acc p l mem = ((x_1, v_1, err), mem1)"
    by (metis prod.exhaust)
  show ?thesis
    unfolding rk_iteration_actual_dt [OF a] by (rule next_actual_dt_ge_floor [OF assms])
qed

lemma rk_loop_dt_floor:
  assumes "0 < p_expected_time_scale p"
    and "p_expected_time_scale p * (1 / 10 ^ 12) \<le> loc_actual_dt l"
  shows "p_expected_time_scale p * (1 / 10 ^ 12)
       \<le> loc_actual_dt (fst (rk_loop acc p is l mem))"
  using assms(2)
proof (induction "is" arbitrary: l mem)
  case Nil
  then show ?case by simp
next
  case (Cons i "is")
  obtain l1 mem1 where it: "rk_iteration acc p l mem = (l1, mem1)"
    by (cases "rk_iteration acc p l mem")
  have l1: "p_expected_time_scale p * (1 / 10 ^ 12) \<le> loc_actual_dt l1"
    using rk_iteration_dt_floor [OF assms(1) Cons.prems, of acc mem] it by simp
  from Cons.IH [OF l1] it l1 show ?case by simp
qed

lemma rk_embedded_dt_floor:
  assumes "0 < ets" "ets * (1 / 10 ^ 12) \<le> dt"
  shows "ets * (1 / 10 ^ 12)
     \<le> snd (snd (snd (fst (rk_embedded acc N x v m G ets sim_time dt pw pw_test coeff weights
            weights_test max_it min_it abs_tol rel_tol mem))))"
  unfolding rk_embedded_def Let_def split_def fst_conv snd_conv
  by (rule order_trans [OF _ rk_loop_dt_floor]) (insert assms, simp_all)

lemma rk_embedded_one_iteration:
  "(let (vk, mem1) = new_array (zeros (length weights * N * 3)) mem;
        (xk, mem2) = new_array (zeros (length weights * N * 3)) mem1;
        ((x_1, v_1, err), mem3) =
           rk_attempt acc N x v m G dt coeff weights (arr_sub weights weights_test)
             (length weights) vk xk abs_tol rel_tol mem2
    in snd (snd (snd (fst (rk_embedded acc N x v m G ets sim_time dt pw pw_test coeff weights
            weights_test (Suc 0) min_it abs_tol rel_tol mem))))
       = next_actual_dt err dt (min pw pw_test) ets)"
  by (simp add: rk_embedded_def rk_iteration_def attempt_of_def Let_def split_def)

text \<open>
  C2 (amended). After an attempt with the step \<open>h\<close> and the error \<open>err\<close> the proposal is
  \<open>h_new = h * safety_fac * err powr (- 1 / (1 + p_min))\<close> with
  \<open>safety_fac = 0.38 powr (1 / (1 + p_min))\<close> and \<open>p_min = min power power_test\<close> (and
  \<open>h_new = h\<close> when \<open>err = 0\<close>). The clamped step is \<open>6.0 * h\<close> if \<open>h_new > 6.0 * h\<close>,
  otherwise \<open>0.33 * h\<close> if \<open>h_new < 0.33 * h\<close>, otherwise \<open>h_new\<close>; for a positive \<open>h\<close>
  it lies in \<open>[0.33 * h, 6.0 * h]\<close>. The step for the next attempt is the floor
  \<open>expected_time_scale * 1e-12\<close> when \<open>h_new / expected_time_scale < 1e-12\<close>, the proposal
  itself being tested, and the clamped step otherwise; it is the value that an iteration
  of the loop stores in \<open>actual_dt\<close>, and the value that a call with \<open>max_iteration = 1\<close>
  returns. For positive \<open>h\<close> and \<open>expected_time_scale\<close> it is the maximum of the clamped
  step and the floor if and only if neither \<open>h_new < floor < 0.33 * h\<close> nor
  \<open>6.0 * h < floor \<le> h_new\<close>; in the first case it is the floor, which is below the clamped
  step \<open>0.33 * h\<close>. When \<open>floor \<le> h\<close> the second case does not arise and the step for the
  next attempt is at least the floor, and so is the step that \<open>rk_embedded\<close> returns,
  whatever the number of iterations.
\<close>

theorem step_size_update:
  fixes error actual_dt expected_time_scale h_new :: real and power' power_test :: int
  defines "dt_new \<equiv> proposed_dt error actual_dt (min power' power_test)"
    and "clamped \<equiv> bounded_dt (proposed_dt error actual_dt (min power' power_test)) actual_dt"
    and "floor_dt \<equiv> expected_time_scale * (1 / 10 ^ 12)"
    and "result \<equiv> next_actual_dt error actual_dt (min power' power_test) expected_time_scale"
  shows
  "result = (if dt_new / expected_time_scale < 1 / 10 ^ 12 then floor_dt else clamped)
   \<and> proposed_dt 0 actual_dt (min power' power_test) = actual_dt
   \<and> (error \<noteq> 0 \<longrightarrow>
        dt_new = actual_dt * safety_fac (min power' power_test)
                   * error powr (- 1 / (1 + real_of_int (min power' power_test))))
   \<and> safety_fac (min power' power_test)
       = 0.38 powr (1 / (1 + real_of_int (min power' power_test)))
   \<and> bounded_dt h_new actual_dt =
        (if h_new > 6.0 * actual_dt then 6.0 * actual_dt
         else if h_new < 0.33 * actual_dt then 0.33 * actual_dt
         else h_new)
   \<and> (0 < actual_dt \<longrightarrow>
        0.33 * actual_dt \<le> bounded_dt h_new actual_dt
        \<and> bounded_dt h_new actual_dt \<le> 6.0 * actual_dt)
   \<and> (0 < expected_time_scale \<and> 0.33 * actual_dt \<le> dt_new \<and> dt_new \<le> 6.0 * actual_dt
        \<longrightarrow> result = max clamped floor_dt)
   \<and> (0 < actual_dt \<and> 0 < expected_time_scale \<longrightarrow>
        (result = max clamped floor_dt \<longleftrightarrow>
           \<not> (dt_new < floor_dt \<and> floor_dt < 0.33 * actual_dt)
           \<and> \<not> (6.0 * actual_dt < floor_dt \<and> floor_dt \<le> dt_new)))
   \<and> (0 < expected_time_scale \<and> floor_dt \<le> actual_dt \<longrightarrow>
        floor_dt \<le> result
        \<and> (result = max clamped floor_dt \<longleftrightarrow>
             \<not> (dt_new < floor_dt \<and> floor_dt < 0.33 * actual_dt)))
   \<and> (0 < expected_time_scale \<and> dt_new < floor_dt \<and> floor_dt < 0.33 * actual_dt \<longrightarrow>
        result = floor_dt \<and> clamped = 0.33 * actual_dt \<and> result < clamped)
   \<and> (attempt_of acc p l mem_i = ((x_1, v_1, err), mem1) \<longrightarrow>
        loc_actual_dt (fst (rk_iteration acc p l mem_i))
          = next_actual_dt err (loc_actual_dt l) (p_min_power p) (p_expected_time_scale p))
   \<and> (let (vk, m1) = new_array (zeros (length weights * objects_count * 3)) mem;
           (xk, m2) = new_array (zeros (length weights * objects_count * 3)) m1;
           ((x1, v1, first_error), m3) =
              rk_attempt acc objects_count x v m G actual_dt coeff weights
                (arr_sub weights weights_test) (length weights) vk xk
                abs_tolerance rel_tolerance m2
       in snd (snd (snd (fst (rk_embedded acc objects_count x v m G expected_time_scale
                 simulation_time actual_dt power' power_test coeff weights weights_test
                 (Suc 0) min_iteration abs_tolerance rel_tolerance mem))))
          = next_actual_dt first_error actual_dt (min power' power_test) expected_time_scale)
   \<and> (0 < expected_time_scale \<and> floor_dt \<le> actual_dt \<longrightarrow>
        floor_dt \<le> snd (snd (snd (fst (rk_embedded acc objects_count x v m G
                       expected_time_scale simulation_time actual_dt power' power_test coeff
                       weights weights_test max_iteration min_iteration abs_tolerance
                       rel_tolerance mem)))))"
proof -
  note defs = dt_new_def clamped_def floor_dt_def result_def
  have c1: "result = (if dt_new / expected_time_scale < 1 / 10 ^ 12 then floor_dt else clamped)"
    unfolding defs by (rule next_actual_dt_cases)
  have c2: "proposed_dt 0 actual_dt (min power' power_test) = actual_dt"
    by (simp add: proposed_dt_def)
  have c3: "error \<noteq> 0 \<longrightarrow>
        dt_new = actual_dt * safety_fac (min power' power_test)
                   * error powr (- 1 / (1 + real_of_int (min power' power_test)))"
    unfolding defs by (intro impI) (rule proposed_dt_formula)
  have c4: "safety_fac (min power' power_test)
      = 0.38 powr (1 / (1 + real_of_int (min power' power_test)))"
    by (simp add: safety_fac_def)
  have c5: "bounded_dt h_new actual_dt =
        (if h_new > 6.0 * actual_dt then 6.0 * actual_dt
         else if h_new < 0.33 * actual_dt then 0.33 * actual_dt
         else h_new)"
    by (rule bounded_dt_clamp)
  have c6: "0 < actual_dt \<longrightarrow>
        0.33 * actual_dt \<le> bounded_dt h_new actual_dt
        \<and> bounded_dt h_new actual_dt \<le> 6.0 * actual_dt"
    by (intro impI) (rule bounded_dt_range)
  have c7: "0 < expected_time_scale \<and> 0.33 * actual_dt \<le> dt_new \<and> dt_new \<le> 6.0 * actual_dt
        \<longrightarrow> result = max clamped floor_dt"
    unfolding defs
    by (auto simp: next_actual_dt_def Let_def bounded_dt_def safety_fac_max_def
        safety_fac_min_def max_def field_simps)
  have c8: "0 < actual_dt \<and> 0 < expected_time_scale \<longrightarrow>
        (result = max clamped floor_dt \<longleftrightarrow>
           \<not> (dt_new < floor_dt \<and> floor_dt < 0.33 * actual_dt)
           \<and> \<not> (6.0 * actual_dt < floor_dt \<and> floor_dt \<le> dt_new))"
    unfolding defs by (intro impI, elim conjE) (rule next_actual_dt_max_iff)
  have c9: "0 < expected_time_scale \<and> floor_dt \<le> actual_dt \<longrightarrow>
        floor_dt \<le> result
        \<and> (result = max clamped floor_dt \<longleftrightarrow>
             \<not> (dt_new < floor_dt \<and> floor_dt < 0.33 * actual_dt))"
    unfolding defs
    by (intro impI conjI; elim conjE)
      (rule next_actual_dt_ge_floor, assumption, assumption,
       rule next_actual_dt_max_iff_above_floor)
  have c10: "0 < expected_time_scale \<and> dt_new < floor_dt \<and> floor_dt < 0.33 * actual_dt \<longrightarrow>
        result = floor_dt \<and> clamped = 0.33 * actual_dt \<and> result < clamped"
    unfolding defs
    by (intro impI conjI; elim conjE)
      (rule floor_replaces_clamped(1), assumption, assumption, assumption,
       rule floor_replaces_clamped(2), assumption, assumption, assumption,
       rule floor_replaces_clamped(3))
  have c11: "attempt_of acc p l mem_i = ((x_1, v_1, err), mem1) \<longrightarrow>
        loc_actual_dt (fst (rk_iteration acc p l mem_i))
          = next_actual_dt err (loc_actual_dt l) (p_min_power p) (p_expected_time_scale p)"
    by (intro impI) (rule rk_iteration_actual_dt)
  have c12: "(let (vk, m1) = new_array (zeros (length weights * objects_count * 3)) mem;
           (xk, m2) = new_array (zeros (length weights * objects_count * 3)) m1;
           ((x1, v1, first_error), m3) =
              rk_attempt acc objects_count x v m G actual_dt coeff weights
                (arr_sub weights weights_test) (length weights) vk xk
                abs_tolerance rel_tolerance m2
       in snd (snd (snd (fst (rk_embedded acc objects_count x v m G expected_time_scale
                 simulation_time actual_dt power' power_test coeff weights weights_test
                 (Suc 0) min_iteration abs_tolerance rel_tolerance mem))))
          = next_actual_dt first_error actual_dt (min power' power_test) expected_time_scale)"
    by (rule rk_embedded_one_iteration)
  have c13: "0 < expected_time_scale \<and> floor_dt \<le> actual_dt \<longrightarrow>
        floor_dt \<le> snd (snd (snd (fst (rk_embedded acc objects_count x v m G
                       expected_time_scale simulation_time actual_dt power' power_test coeff
                       weights weights_test max_iteration min_iteration abs_tolerance
                       rel_tolerance mem))))"
    unfolding defs by (intro impI, elim conjE) (rule rk_embedded_dt_floor)
  from c1 c2 c3 c4 c5 c6 c7 c8 c9 c10 c11 c12 c13 show ?thesis by (intro conjI)
qed

lemma safety_fac_4_lower: "0.38 \<le> safety_fac 4"
proof -
  have "(0.38::real) powr 1 \<le> 0.38 powr (1 / 5)"
    by (rule powr_mono') simp_all
  then show ?thesis by (simp add: safety_fac_def)
qed

lemma proposed_dt_1: "proposed_dt 1 h 4 = h * safety_fac 4"
  by (simp add: proposed_dt_def)

theorem step_size_update_witness:
  "(1024::real) \<noteq> 0 \<and> (0::real) < 4 / 10 ^ 12 \<and> (0::real) < 1
   \<and> (1::real) * (1 / 10 ^ 12) \<le> 4 / 10 ^ 12
   \<and> proposed_dt 1024 (4 / 10 ^ 12) (min 4 5) < 1 * (1 / 10 ^ 12)
   \<and> (1::real) * (1 / 10 ^ 12) < 0.33 * (4 / 10 ^ 12)
   \<and> proposed_dt 1024 (4 / 10 ^ 12) (min 4 5)
       = 4 / 10 ^ 12 * safety_fac (min 4 5) * 1024 powr (- 1 / (1 + real_of_int (min 4 5)))
   \<and> next_actual_dt 1024 (4 / 10 ^ 12) (min 4 5) 1 = 1 * (1 / 10 ^ 12)
   \<and> bounded_dt (proposed_dt 1024 (4 / 10 ^ 12) (min 4 5)) (4 / 10 ^ 12) = 0.33 * (4 / 10 ^ 12)
   \<and> next_actual_dt 1024 (4 / 10 ^ 12) (min 4 5) 1
       < bounded_dt (proposed_dt 1024 (4 / 10 ^ 12) (min 4 5)) (4 / 10 ^ 12)
   \<and> next_actual_dt 1024 (4 / 10 ^ 12) (min 4 5) 1
       \<noteq> max (bounded_dt (proposed_dt 1024 (4 / 10 ^ 12) (min 4 5)) (4 / 10 ^ 12))
             (1 * (1 / 10 ^ 12))
   \<and> 1 * (1 / 10 ^ 12) \<le> next_actual_dt 1024 (4 / 10 ^ 12) (min 4 5) 1
   \<and> 0.33 * (4 / 10 ^ 12) \<le> proposed_dt 1 (4 / 10 ^ 12) (min 4 5)
   \<and> proposed_dt 1 (4 / 10 ^ 12) (min 4 5) \<le> 6.0 * (4 / 10 ^ 12)
   \<and> next_actual_dt 1 (4 / 10 ^ 12) (min 4 5) 1
       = max (bounded_dt (proposed_dt 1 (4 / 10 ^ 12) (min 4 5)) (4 / 10 ^ 12))
           (1 * (1 / 10 ^ 12))
   \<and> loc_actual_dt (fst (rk_iteration one_body_acceleration one_body_params one_body_locals
                           one_body_loop_memory))
       = next_actual_dt
           (snd (snd (fst (attempt_of one_body_acceleration one_body_params one_body_locals
                             one_body_loop_memory))))
           (loc_actual_dt one_body_locals) (p_min_power one_body_params)
           (p_expected_time_scale one_body_params)
   \<and> 1 * (1 / 10 ^ 12)
       \<le> snd (snd (snd (fst (rk_embedded one_body_acceleration 1 0 1 2 1 1 0 (4 / 10 ^ 12) 4 5
                 rkf45_coeff rkf45_weights rkf45_weights_test 10 1 (1 / 10 ^ 9) (1 / 10 ^ 9)
                 one_body_memory))))"
proof -
  have m: "min (4::int) 5 = 4" by simp
  obtain x_1 v_1 err mem1 where
    a: "attempt_of one_body_acceleration one_body_params one_body_locals one_body_loop_memory
        = ((x_1, v_1, err), mem1)"
    by (metis prod.exhaust)
  have h: "(1024::real) \<noteq> 0" "(0::real) < 4 / 10 ^ 12" "(0::real) < 1"
    "(1::real) * (1 / 10 ^ 12) \<le> 4 / 10 ^ 12"
    "(1::real) * (1 / 10 ^ 12) < 0.33 * (4 / 10 ^ 12)"
    by simp_all
  have below: "proposed_dt 1024 (4 / 10 ^ 12) (min 4 5) < 1 * (1 / 10 ^ 12)"
    unfolding m using safety_fac_4(2) by (simp add: proposed_dt_1024)
  have lo: "0.33 * (4 / 10 ^ 12) \<le> proposed_dt 1 (4 / 10 ^ 12) (min 4 5)"
    unfolding m proposed_dt_1 using safety_fac_4_lower by simp
  have hi: "proposed_dt 1 (4 / 10 ^ 12) (min 4 5) \<le> 6.0 * (4 / 10 ^ 12)"
    unfolding m proposed_dt_1 using safety_fac_4(2) by simp
  note A = step_size_update [where error = 1024 and actual_dt = "4 / 10 ^ 12" and power' = 4
      and power_test = 5 and expected_time_scale = 1
      and h_new = "proposed_dt 1024 (4 / 10 ^ 12) (min 4 5)"
      and acc = one_body_acceleration and p = one_body_params and l = one_body_locals
      and mem_i = one_body_loop_memory and ?x_1.0 = x_1 and ?v_1.0 = v_1 and err = err
      and ?mem1.0 = mem1 and objects_count = 1 and x = 0 and v = 1 and m = 2 and G = 1
      and simulation_time = 0 and coeff = rkf45_coeff and weights = rkf45_weights
      and weights_test = rkf45_weights_test and max_iteration = 10 and min_iteration = 1
      and abs_tolerance = "1 / 10 ^ 9" and rel_tolerance = "1 / 10 ^ 9"
      and mem = one_body_memory]
  note B = step_size_update [where error = 1 and actual_dt = "4 / 10 ^ 12" and power' = 4
      and power_test = 5 and expected_time_scale = 1]
  have e: "snd (snd (fst (attempt_of one_body_acceleration one_body_params one_body_locals
                             one_body_loop_memory))) = err"
    unfolding a by simp
  note r3 = A [THEN conjunct2, THEN conjunct2]
  note r6 = r3 [THEN conjunct2, THEN conjunct2, THEN conjunct2]
  note r8 = r6 [THEN conjunct2, THEN conjunct2]
  note r9 = r8 [THEN conjunct2]
  note r10 = r9 [THEN conjunct2]
  note r11 = r10 [THEN conjunct2]
  note s4 = B [THEN conjunct2, THEN conjunct2, THEN conjunct2]
  note A3 = r3 [THEN conjunct1, THEN mp, OF h(1)]
  note A6 = r6 [THEN conjunct1, THEN mp, OF h(2)]
  note B7 = s4 [THEN conjunct2, THEN conjunct2, THEN conjunct2, THEN conjunct1, THEN mp,
      OF conjI [OF h(3) conjI [OF lo hi]]]
  note A8 = r8 [THEN conjunct1, THEN mp, OF conjI [OF h(2) h(3)]]
  note A9 = r9 [THEN conjunct1, THEN mp, OF conjI [OF h(3) h(4)]]
  note A10 = r10 [THEN conjunct1, THEN mp, OF conjI [OF h(3) conjI [OF below h(5)]]]
  note A11 = r11 [THEN conjunct1, THEN mp, OF a]
  note A13 = r11 [THEN conjunct2, THEN conjunct2, THEN mp, OF conjI [OF h(3) h(4)]]
  have ne: "next_actual_dt 1024 (4 / 10 ^ 12) (min 4 5) 1
       \<noteq> max (bounded_dt (proposed_dt 1024 (4 / 10 ^ 12) (min 4 5)) (4 / 10 ^ 12))
             (1 * (1 / 10 ^ 12))"
    using A8 below h(5) by blast
  from h below lo hi A3 A6 B7 ne A9 A10 A11 A13 show ?thesis
    unfolding e by (elim conjE) (intro conjI)
qed

subsection \<open>The initial time step\<close>

lemma scaled_rms_code:
  "sqrt ((arr_sum (arr_square (arr_div p sp)) + arr_sum (arr_square (arr_div q sq)))
          / real (N * 3 * 2))
   = scaled_rms N p sp q sq"
proof -
  have sq: "\<And>p s. arr_square (arr_div p s) = map2 (\<lambda>u s. (u / s) ^ 2) p s"
    by (simp add: arr_square_def arr_div_def power2_eq_square map_zip_map2 case_prod_beta
        zip_map_fst_snd)
  have n: "real (N * 3 * 2) = real (6 * N)" by simp
  show ?thesis
    unfolding scaled_rms_def sq arr_sum_def n by (simp only: real_sqrt_divide)
qed

text \<open>
  C3. Called with equal absolute and relative tolerances, the initial-step estimator
  returns \<open>1e-3 * min (100 * dt_0) dt_1\<close> with \<open>dt_0\<close>, \<open>d_0\<close>, \<open>d_1\<close>, \<open>d_2\<close> and
  \<open>dt_1\<close> as the specification defines them (\<open>initial_step_spec\<close>). The hypotheses
  exclude the inputs on which the source divides by zero: no body, a tolerance that is
  not positive, a negative order.
\<close>

theorem initial_time_step_refines_spec:
  assumes "0 < objects_count" "0 < tolerance" "0 \<le> power'"
  shows "rk_embedded_initial_time_step acc objects_count power' x v a m G tolerance tolerance
         = initial_step_spec acc objects_count power' x v a m G tolerance"
proof -
  have scale: "\<And>u. arr_shift tolerance (arr_scale tolerance (arr_abs u))
      = map (\<lambda>ui. tolerance + tolerance * \<bar>ui\<bar>) u"
    by (simp add: arr_shift_def arr_scale_def arr_abs_def)
  have probe: "\<And>h p q. arr_add p (arr_scale h q) = map2 (\<lambda>pi qi. pi + h * qi) p q"
    by (simp add: arr_add_def arr_scale_def zip_map2 case_prod_beta)
  have disj: "\<And>a b c :: real. (a < c \<or> b < c) = (min a b < c)" by auto
  have comm: "\<And>d :: real. d * (1 / 10 ^ 3) = (1 / 10 ^ 3) * d" by (rule mult.commute)
  show ?thesis
    unfolding rk_embedded_initial_time_step_def initial_step_spec_def Let_def
      scaled_rms_code scale probe disj arr_sub_def
    by (rule comm)
qed

theorem initial_time_step_refines_spec_witness:
  "(0::nat) < 1 \<and> (0::real) < 1 / 10 ^ 9 \<and> (0::int) \<le> 4
   \<and> rk_embedded_initial_time_step one_body_acceleration 1 4 [0, 0, 0] [1, 0, 0] [0, 0, 0]
        [1] 1 (1 / 10 ^ 9) (1 / 10 ^ 9)
      = initial_step_spec one_body_acceleration 1 4 [0, 0, 0] [1, 0, 0] [0, 0, 0]
        [1] 1 (1 / 10 ^ 9)"
proof -
  have h: "(0::nat) < 1" "(0::real) < 1 / 10 ^ 9" "(0::int) \<le> 4" by simp_all
  from initial_time_step_refines_spec [OF h] h show ?thesis by blast
qed

end
